theory Spec2Isabelle
  imports Main "HOL-Library.Word"
begin

unbundle bit_operations_syntax

section \<open>Data model of the simple-router manager\<close>

text \<open>
  The development embeds \<^verbatim>\<open>src/proto/demo_grpc/simple_router_mgr.cpp\<close>.
  The class \<^verbatim>\<open>SimpleRouterMgr\<close> is a record that is passed through every
  operation and returned updated. Everything the manager sends to the outside is kept
  in two logs inside that record: the RPCs issued to the device (\<open>dev_log\<close>) and the
  packets written to the packet-out stream (\<open>pkt_out\<close>). What the device answers is a
  parameter of the operations (\<open>device\<close>). The program is taken as built with
  assertions enabled: an \<^verbatim>\<open>assert\<close> that fails ends the process, which is the
  result \<open>Inl AssertionFailed\<close>. The handlers that the source posts to the
  \<^verbatim>\<open>io_service\<close> run one at a time, so each is a function on the state.
\<close>

type_synonym byte = "8 word"
type_synonym Packet = "byte list"
type_synonym PacketQueue = "Packet list"
type_synonym pi_p4_id_t = "32 word"

text \<open>\<^verbatim>\<open>unsigned char [6]\<close>: exactly six bytes.\<close>

datatype mac = Mac byte byte byte byte byte byte

fun mac_bytes :: "mac \<Rightarrow> byte list" where
  "mac_bytes (Mac a b c d e f) = [a, b, c, d, e, f]"

text \<open>
  Modelled from the spec: the struct \<^verbatim>\<open>Iface\<close> is declared in
  \<^verbatim>\<open>simple_router_mgr.h\<close>, which is not among the sources. Spec section 3:
  \<^verbatim>\<open>{port_num: u16, ip_addr: u32, mac_addr: 6 bytes}\<close>.
\<close>

record Iface =
  port_num :: "16 word"
  ip_addr :: "32 word"
  mac_addr :: mac

text \<open>
  The pipeline description \<^verbatim>\<open>pi_p4info_t\<close> is an opaque handle of the PI
  library; the manager only resolves names through it. It is modelled by its five
  lookup functions (\<^verbatim>\<open>pi_p4info_table_id_from_name\<close> and so on).
\<close>

record p4info_t =
  table_id_from_name :: "string \<Rightarrow> pi_p4_id_t"
  action_id_from_name :: "string \<Rightarrow> pi_p4_id_t"
  field_id_from_name :: "string \<Rightarrow> pi_p4_id_t"
  action_param_id_from_name :: "pi_p4_id_t \<Rightarrow> string \<Rightarrow> pi_p4_id_t"
  counter_id_from_name :: "string \<Rightarrow> pi_p4_id_t"

text \<open>The protocol messages \<^verbatim>\<open>p4::TableEntry\<close> and its parts.\<close>

datatype match_t = Exact "byte list" | Lpm "byte list" int

datatype FieldMatch = FieldMatch (fm_field_id: pi_p4_id_t) (fm_match: match_t)

datatype Action = Action (act_id: pi_p4_id_t) (act_params: "(pi_p4_id_t \<times> byte list) list")

datatype TableEntry =
  TableEntry (te_table_id: pi_p4_id_t) (te_match: "FieldMatch list") (te_action: Action)

text \<open>
  Modelled from the spec: \<^verbatim>\<open>p4::tmp::CounterData\<close> and the entries of a
  \<^verbatim>\<open>CounterReadResponse\<close> are generated from protocol files that are not among
  the sources. Spec section 3: a counter read returns
  \<^verbatim>\<open>{packets: u64, bytes: u64}\<close>. The entry's id and index are kept at the types
  the source casts them to (\<^verbatim>\<open>pi_p4_id_t\<close> and \<^verbatim>\<open>size_t\<close>).
\<close>

datatype CounterData = CounterData (cd_packets: "64 word") (cd_bytes: "64 word")

datatype CounterEntry =
  CounterEntry (ce_counter_id: pi_p4_id_t) (ce_index: "64 word") (ce_data: CounterData)

text \<open>
  The requests the manager issues. \<open>TableWrite\<close> is always one update of type
  \<^verbatim>\<open>INSERT\<close> (\<^verbatim>\<open>add_one_entry\<close>). The first argument is the device id.
\<close>

datatype request =
    TableWrite int TableEntry
  | DeviceUpdateStart int p4info_t string
  | DeviceUpdateEnd int
  | CounterRead int pi_p4_id_t

text \<open>
  The device's answers. Each answer may depend on the requests issued so far. \<open>None\<close>
  is a transport failure (\<^verbatim>\<open>status.ok()\<close> is false). A table write answers its
  number of errors (\<^verbatim>\<open>rep.errors().size()\<close>), the two update calls answer a
  status code (\<^verbatim>\<open>rep.code()\<close>), a counter read answers its entries.
\<close>

record device =
  table_write :: "request list \<Rightarrow> TableEntry \<Rightarrow> nat option"
  update_start :: "request list \<Rightarrow> p4info_t \<Rightarrow> string \<Rightarrow> int option"
  update_end :: "request list \<Rightarrow> int option"
  counter_read :: "request list \<Rightarrow> pi_p4_id_t \<Rightarrow> CounterEntry list option"

text \<open>
  Modelled from the spec: the members of \<^verbatim>\<open>SimpleRouterMgr\<close> are declared in
  \<^verbatim>\<open>simple_router_mgr.h\<close>. Spec section 3: the next-hop table maps
  \<^verbatim>\<open>nhop_ip (u32)\<close> to \<^verbatim>\<open>egress_port (u16)\<close>, the pending queues map
  \<^verbatim>\<open>dst_ip (u32)\<close> to an ordered sequence of raw packets.
\<close>

record mgr =
  dev_id :: int
  p4info :: p4info_t
  ifaces :: "Iface list"
  next_hops :: "32 word \<rightharpoonup> 16 word"
  packet_queues :: "32 word \<rightharpoonup> PacketQueue"
  dev_log :: "request list"
  pkt_out :: "Packet list"

datatype failure = AssertionFailed | OutOfBounds

datatype UpdateMode = CONTROLLER_STATE | DEVICE_STATE

text \<open>\<^verbatim>\<open>google::rpc::Code::OK\<close>.\<close>

definition OK :: int where
  "OK = 0"

section \<open>Header codec\<close>

definition NO_ARP_ENTRY :: "16 word" where
  "NO_ARP_ENTRY = 0"

definition ARP_MSG :: "16 word" where
  "ARP_MSG = 1"

definition DATA_PKT :: "16 word" where
  "DATA_PKT = 2"

text \<open>
  \<^verbatim>\<open>htons\<close>/\<^verbatim>\<open>htonl\<close> followed by a store: the bytes in memory are the value
  in network (big-endian) order, whatever the host's order.
\<close>

definition htons :: "16 word \<Rightarrow> byte list" where
  "htons w = [ucast (drop_bit 8 w), ucast w]"

definition htonl :: "32 word \<Rightarrow> byte list" where
  "htonl w = [ucast (drop_bit 24 w), ucast (drop_bit 16 w), ucast (drop_bit 8 w), ucast w]"

text \<open>A load followed by \<^verbatim>\<open>ntohs\<close>/\<^verbatim>\<open>ntohl\<close>, at offset \<open>i\<close> of a buffer.\<close>

definition ntohs :: "byte list \<Rightarrow> nat \<Rightarrow> 16 word" where
  "ntohs bs i = push_bit 8 (ucast (bs ! i)) OR ucast (bs ! (i + 1))"

definition ntohl :: "byte list \<Rightarrow> nat \<Rightarrow> 32 word" where
  "ntohl bs i =
     push_bit 24 (ucast (bs ! i)) OR push_bit 16 (ucast (bs ! (i + 1)))
       OR push_bit 8 (ucast (bs ! (i + 2))) OR ucast (bs ! (i + 3))"

definition mac_at :: "byte list \<Rightarrow> nat \<Rightarrow> mac" where
  "mac_at bs i = Mac (bs ! i) (bs ! (i + 1)) (bs ! (i + 2)) (bs ! (i + 3)) (bs ! (i + 4)) (bs ! (i + 5))"

text \<open>
  Modelled from the spec: the packed structs \<^verbatim>\<open>cpu_header_t\<close>,
  \<^verbatim>\<open>eth_header_t\<close> and \<^verbatim>\<open>arp_header_t\<close> are declared in the missing header.
  Spec section 4.1 gives their layouts (no padding): 8 zero bytes, reason, port;
  destination, source, ethertype; and the ARP fields below.
\<close>

definition sizeof_cpu_header :: nat where
  "sizeof_cpu_header = 12"

definition sizeof_eth_header :: nat where
  "sizeof_eth_header = 14"

definition sizeof_arp_header :: nat where
  "sizeof_arp_header = 28"

record arp_header_t =
  hw_type :: "16 word"
  proto_type :: "16 word"
  hw_addr_len :: byte
  proto_addr_len :: byte
  opcode :: "16 word"
  hw_src_addr :: mac
  proto_src_addr :: "32 word"
  hw_dst_addr :: mac
  proto_dst_addr :: "32 word"

text \<open>
  The three \<^verbatim>\<open>set_*_header\<close> functions write a header at a pointer and return its
  size; here each returns the bytes it writes.
\<close>

definition set_cpu_header :: "16 word \<Rightarrow> 16 word \<Rightarrow> byte list" where
  "set_cpu_header reason port = replicate 8 0 @ htons reason @ htons port"

definition set_eth_header :: "mac \<Rightarrow> mac \<Rightarrow> 16 word \<Rightarrow> byte list" where
  "set_eth_header dst_addr src_addr ethertype =
     mac_bytes dst_addr @ mac_bytes src_addr @ htons ethertype"

definition set_arp_header :: "16 word \<Rightarrow> mac \<Rightarrow> 32 word \<Rightarrow> mac \<Rightarrow> 32 word \<Rightarrow> byte list" where
  "set_arp_header opc hw_src proto_src hw_dst proto_dst =
     htons 1 @ htons 0x800 @ [6, 4] @ htons opc
       @ mac_bytes hw_src @ htonl proto_src @ mac_bytes hw_dst @ htonl proto_dst"

text \<open>
  \<^verbatim>\<open>memcpy(&arp_header, pkt + offset, sizeof(arp_header))\<close> and the conversions
  that follow it in \<^verbatim>\<open>PacketHandler::operator()\<close>.
\<close>

definition read_arp_header :: "byte list \<Rightarrow> nat \<Rightarrow> arp_header_t" where
  "read_arp_header pkt off =
     \<lparr> hw_type = ntohs pkt off,
       proto_type = ntohs pkt (off + 2),
       hw_addr_len = pkt ! (off + 4),
       proto_addr_len = pkt ! (off + 5),
       opcode = ntohs pkt (off + 6),
       hw_src_addr = mac_at pkt (off + 8),
       proto_src_addr = ntohl pkt (off + 14),
       hw_dst_addr = mac_at pkt (off + 18),
       proto_dst_addr = ntohl pkt (off + 24) \<rparr>"

text \<open>
  A write of \<open>bs\<close> into the buffer \<open>p\<close> at offset \<open>off\<close>. The source writes through a
  raw pointer; a write past the end of the buffer is \<open>None\<close>.
\<close>

definition write_at :: "nat \<Rightarrow> byte list \<Rightarrow> byte list \<Rightarrow> byte list option" where
  "write_at off bs p =
     (if off + length bs \<le> length p
      then Some (take off p @ bs @ drop (off + length bs) p)
      else None)"

text \<open>\<^verbatim>\<open>uint_to_string\<close>: the value's bytes in network order.\<close>

definition uint_to_string16 :: "16 word \<Rightarrow> byte list" where
  "uint_to_string16 i = htons i"

definition uint_to_string32 :: "32 word \<Rightarrow> byte list" where
  "uint_to_string32 i = htonl i"

section \<open>Programming the device\<close>

text \<open>
  \<^verbatim>\<open>add_one_entry\<close>: one \<^verbatim>\<open>TableWrite\<close> RPC with a single insert. The
  \<^verbatim>\<open>assert(status.ok())\<close> ends the process on a transport failure; otherwise the
  result is the number of errors of the reply.
\<close>

definition add_one_entry :: "device \<Rightarrow> mgr \<Rightarrow> TableEntry \<Rightarrow> failure + (int \<times> mgr)" where
  "add_one_entry dev s match_action_entry =
     (case table_write dev (dev_log s) match_action_entry of
        None \<Rightarrow> Inl AssertionFailed
      | Some n \<Rightarrow>
          Inr (int n, s\<lparr>dev_log := dev_log s @ [TableWrite (dev_id s) match_action_entry]\<rparr>))"

text \<open>The entry that \<^verbatim>\<open>add_route_\<close> builds: the match value is the next hop.\<close>

definition route_entry :: "p4info_t \<Rightarrow> int \<Rightarrow> 32 word \<Rightarrow> 16 word \<Rightarrow> TableEntry" where
  "route_entry info pLen nhop port =
     (let t_id = table_id_from_name info ''ipv4_lpm'';
          a_id = action_id_from_name info ''set_nhop''
      in TableEntry t_id
           [FieldMatch (field_id_from_name info ''ipv4.dstAddr'')
              (Lpm (uint_to_string32 nhop) pLen)]
           (Action a_id
              [(action_param_id_from_name info a_id ''nhop_ipv4'', uint_to_string32 nhop),
               (action_param_id_from_name info a_id ''port'', uint_to_string16 port)]))"

definition add_route' ::
  "device \<Rightarrow> mgr \<Rightarrow> 32 word \<Rightarrow> int \<Rightarrow> 32 word \<Rightarrow> 16 word \<Rightarrow> UpdateMode
     \<Rightarrow> failure + (int \<times> mgr)" where
  "add_route' dev s prefix pLen nhop port update_mode =
     (case (if update_mode = DEVICE_STATE
            then add_one_entry dev s (route_entry (p4info s) pLen nhop port)
            else Inr (0, s)) of
        Inl e \<Rightarrow> Inl e
      | Inr (rc, s1) \<Rightarrow>
          Inr (rc, if update_mode = CONTROLLER_STATE
                   then s1\<lparr>next_hops := (next_hops s1)(nhop \<mapsto> port)\<rparr>
                   else s1))"

definition add_route ::
  "device \<Rightarrow> mgr \<Rightarrow> 32 word \<Rightarrow> int \<Rightarrow> 32 word \<Rightarrow> 16 word \<Rightarrow> failure + (int \<times> mgr)" where
  "add_route dev s prefix pLen nhop port =
     (case add_route' dev s prefix pLen nhop port CONTROLLER_STATE of
        Inl e \<Rightarrow> Inl e
      | Inr (rc1, s1) \<Rightarrow>
          (case add_route' dev s1 prefix pLen nhop port DEVICE_STATE of
             Inl e \<Rightarrow> Inl e
           | Inr (rc2, s2) \<Rightarrow> Inr ((0 OR rc1) OR rc2, s2)))"

definition arp_entry :: "p4info_t \<Rightarrow> 32 word \<Rightarrow> mac \<Rightarrow> TableEntry" where
  "arp_entry info addr m =
     (let t_id = table_id_from_name info ''forward'';
          a_id = action_id_from_name info ''set_dmac''
      in TableEntry t_id
           [FieldMatch (field_id_from_name info ''routing_metadata.nhop_ipv4'')
              (Exact (uint_to_string32 addr))]
           (Action a_id [(action_param_id_from_name info a_id ''dmac'', mac_bytes m)]))"

definition add_arp_entry :: "device \<Rightarrow> mgr \<Rightarrow> 32 word \<Rightarrow> mac \<Rightarrow> failure + (int \<times> mgr)" where
  "add_arp_entry dev s addr m = add_one_entry dev s (arp_entry (p4info s) addr m)"

definition mac_entry :: "p4info_t \<Rightarrow> 16 word \<Rightarrow> mac \<Rightarrow> TableEntry" where
  "mac_entry info port m =
     (let t_id = table_id_from_name info ''send_frame'';
          a_id = action_id_from_name info ''rewrite_mac''
      in TableEntry t_id
           [FieldMatch (field_id_from_name info ''standard_metadata.egress_port'')
              (Exact (uint_to_string16 port))]
           (Action a_id [(action_param_id_from_name info a_id ''smac'', mac_bytes m)]))"

definition assign_mac_addr :: "device \<Rightarrow> mgr \<Rightarrow> 16 word \<Rightarrow> mac \<Rightarrow> failure + (int \<times> mgr)" where
  "assign_mac_addr dev s port m = add_one_entry dev s (mac_entry (p4info s) port m)"

definition default_forward_entry :: "p4info_t \<Rightarrow> TableEntry" where
  "default_forward_entry info =
     (let t_id = table_id_from_name info ''forward'';
          a_id = action_id_from_name info ''_drop''
      in TableEntry t_id
           [FieldMatch (field_id_from_name info ''routing_metadata.nhop_ipv4'')
              (Exact (uint_to_string32 0))]
           (Action a_id []))"

text \<open>
  \<^verbatim>\<open>set_default_entries\<close>: \<^verbatim>\<open>rc\<close> is set to 0 and returned; a non-zero
  result of \<^verbatim>\<open>add_one_entry\<close> only prints a message.
\<close>

definition set_default_entries :: "device \<Rightarrow> mgr \<Rightarrow> failure + (int \<times> mgr)" where
  "set_default_entries dev s =
     (let rc = 0 in
      case add_one_entry dev s (default_forward_entry (p4info s)) of
        Inl e \<Rightarrow> Inl e
      | Inr (n, s1) \<Rightarrow> Inr (rc, s1))"

text \<open>
  \<^verbatim>\<open>add_iface_\<close>: the controller side appends the interface; the device side
  programs the MAC of the first interface on that port (the result of
  \<^verbatim>\<open>assign_mac_addr\<close> is dropped).
\<close>

definition add_iface' ::
  "device \<Rightarrow> mgr \<Rightarrow> 16 word \<Rightarrow> 32 word \<Rightarrow> mac \<Rightarrow> UpdateMode \<Rightarrow> failure + mgr" where
  "add_iface' dev s port ip m update_mode =
     (let s1 = (if update_mode = CONTROLLER_STATE
                then s\<lparr>ifaces := ifaces s @ [\<lparr>port_num = port, ip_addr = ip, mac_addr = m\<rparr>]\<rparr>
                else s)
      in if update_mode = DEVICE_STATE
         then (case find (\<lambda>iface. port_num iface = port) (ifaces s1) of
                 None \<Rightarrow> Inr s1
               | Some iface \<Rightarrow>
                   (case assign_mac_addr dev s1 port (mac_addr iface) of
                      Inl e \<Rightarrow> Inl e
                    | Inr (rc, s2) \<Rightarrow> Inr s2))
         else Inr s1)"

definition add_iface :: "device \<Rightarrow> mgr \<Rightarrow> 16 word \<Rightarrow> 32 word \<Rightarrow> mac \<Rightarrow> failure + mgr" where
  "add_iface dev s port ip m =
     (case add_iface' dev s port ip m CONTROLLER_STATE of
        Inl e \<Rightarrow> Inl e
      | Inr s1 \<Rightarrow> add_iface' dev s1 port ip m DEVICE_STATE)"

definition hw1 :: mac where
  "hw1 = Mac 0x00 0xaa 0xbb 0x00 0x00 0x00"

definition hw2 :: mac where
  "hw2 = Mac 0x00 0xaa 0xbb 0x00 0x00 0x01"

text \<open>\<^verbatim>\<open>static_config_\<close>: four calls whose results are dropped; it returns 0.\<close>

definition static_config' :: "device \<Rightarrow> mgr \<Rightarrow> UpdateMode \<Rightarrow> failure + (int \<times> mgr)" where
  "static_config' dev s update_mode =
     (case add_route' dev s 0x0a00000a 32 0x0a00000a 1 update_mode of
        Inl e \<Rightarrow> Inl e
      | Inr (r1, s1) \<Rightarrow>
     (case add_route' dev s1 0x0a00010a 32 0x0a00010a 2 update_mode of
        Inl e \<Rightarrow> Inl e
      | Inr (r2, s2) \<Rightarrow>
     (case add_iface' dev s2 1 0x0a000001 hw1 update_mode of
        Inl e \<Rightarrow> Inl e
      | Inr s3 \<Rightarrow>
     (case add_iface' dev s3 2 0x0a000101 hw2 update_mode of
        Inl e \<Rightarrow> Inl e
      | Inr s4 \<Rightarrow> Inr (0, s4)))))"

definition static_config :: "device \<Rightarrow> mgr \<Rightarrow> failure + (int \<times> mgr)" where
  "static_config dev s =
     (case static_config' dev s CONTROLLER_STATE of
        Inl e \<Rightarrow> Inl e
      | Inr (rc1, s1) \<Rightarrow>
          (case static_config' dev s1 DEVICE_STATE of
             Inl e \<Rightarrow> Inl e
           | Inr (rc2, s2) \<Rightarrow> Inr ((0 OR rc1) OR rc2, s2)))"

section \<open>ARP engine\<close>

definition send_packetout :: "mgr \<Rightarrow> Packet \<Rightarrow> mgr" where
  "send_packetout s bytes = s\<lparr>pkt_out := pkt_out s @ [bytes]\<rparr>"

definition arp_reply_packet :: "Iface \<Rightarrow> arp_header_t \<Rightarrow> Packet" where
  "arp_reply_packet iface arp_header =
     set_cpu_header ARP_MSG (port_num iface)
       @ set_eth_header (hw_src_addr arp_header) (mac_addr iface) 0x0806
       @ set_arp_header 2 (mac_addr iface) (ip_addr iface)
           (hw_src_addr arp_header) (proto_src_addr arp_header)"

definition handle_arp_request :: "mgr \<Rightarrow> arp_header_t \<Rightarrow> mgr" where
  "handle_arp_request s arp_header =
     (case find (\<lambda>iface. ip_addr iface = proto_dst_addr arp_header) (ifaces s) of
        None \<Rightarrow> s
      | Some iface \<Rightarrow> send_packetout s (arp_reply_packet iface arp_header))"

text \<open>
  The loop of \<^verbatim>\<open>handle_arp_reply\<close> over the queue. \<^verbatim>\<open>next_hops[dst_addr]\<close>
  is \<^verbatim>\<open>operator[]\<close>: it inserts port 0 when the key is absent. The two writes go
  through raw pointers into the queued packet.
\<close>

fun reinject :: "mac \<Rightarrow> 32 word \<Rightarrow> mgr \<Rightarrow> Packet list \<Rightarrow> failure + mgr" where
  "reinject m dst_addr s [] = Inr s"
| "reinject m dst_addr s (p # ps) =
     (let port = (case next_hops s dst_addr of None \<Rightarrow> 0 | Some pt \<Rightarrow> pt);
          s1 = s\<lparr>next_hops := (next_hops s)(dst_addr \<mapsto> port)\<rparr>
      in case write_at 0 (set_cpu_header DATA_PKT port) p of
           None \<Rightarrow> Inl OutOfBounds
         | Some p1 \<Rightarrow>
             (case write_at sizeof_cpu_header (mac_bytes m) p1 of
                None \<Rightarrow> Inl OutOfBounds
              | Some p2 \<Rightarrow> reinject m dst_addr (send_packetout s1 p2) ps))"

definition handle_arp_reply :: "device \<Rightarrow> mgr \<Rightarrow> arp_header_t \<Rightarrow> failure + mgr" where
  "handle_arp_reply dev s arp_header =
     (let dst_addr = proto_src_addr arp_header in
      case add_arp_entry dev s dst_addr (hw_src_addr arp_header) of
        Inl e \<Rightarrow> Inl e
      | Inr (rc, s1) \<Rightarrow>
          (case packet_queues s1 dst_addr of
             None \<Rightarrow> Inr s1
           | Some q \<Rightarrow>
               (case reinject (hw_src_addr arp_header) dst_addr s1 q of
                  Inl e \<Rightarrow> Inl e
                | Inr s2 \<Rightarrow> Inr (s2\<lparr>packet_queues := (packet_queues s2)(dst_addr := None)\<rparr>))))"

text \<open>\<^verbatim>\<open>handle_arp\<close>: the \<^verbatim>\<open>default\<close> branch of the switch is \<^verbatim>\<open>assert(0)\<close>.\<close>

definition handle_arp :: "device \<Rightarrow> mgr \<Rightarrow> arp_header_t \<Rightarrow> failure + mgr" where
  "handle_arp dev s arp_header =
     (if opcode arp_header = 1 then Inr (handle_arp_request s arp_header)
      else if opcode arp_header = 2 then handle_arp_reply dev s arp_header
      else Inl AssertionFailed)"

definition broadcast_addr :: mac where
  "broadcast_addr = Mac 0xff 0xff 0xff 0xff 0xff 0xff"

definition arp_request_packet :: "Iface \<Rightarrow> 16 word \<Rightarrow> 32 word \<Rightarrow> Packet" where
  "arp_request_packet iface port dst_addr =
     set_cpu_header ARP_MSG port
       @ set_eth_header broadcast_addr (mac_addr iface) 0x0806
       @ set_arp_header 1 (mac_addr iface) (ip_addr iface) broadcast_addr dst_addr"

definition send_arp_request :: "mgr \<Rightarrow> 16 word \<Rightarrow> 32 word \<Rightarrow> mgr" where
  "send_arp_request s port dst_addr =
     (case find (\<lambda>iface. port_num iface = port) (ifaces s) of
        None \<Rightarrow> s
      | Some iface \<Rightarrow> send_packetout s (arp_request_packet iface port dst_addr))"

text \<open>
  \<^verbatim>\<open>handle_ip\<close>: \<^verbatim>\<open>packet_queues[dst_addr]\<close> creates an empty queue when there is
  none; the packet is appended and an ARP request is sent, on every call.
\<close>

definition handle_ip :: "mgr \<Rightarrow> Packet \<Rightarrow> 32 word \<Rightarrow> mgr" where
  "handle_ip s pkt_copy dst_addr =
     (case next_hops s dst_addr of
        None \<Rightarrow> s
      | Some port \<Rightarrow>
          (let queue = (case packet_queues s dst_addr of None \<Rightarrow> [] | Some q \<Rightarrow> q);
               s1 = s\<lparr>packet_queues := (packet_queues s)(dst_addr \<mapsto> queue @ [pkt_copy])\<rparr>
           in send_arp_request s1 port dst_addr))"

text \<open>
  \<^verbatim>\<open>PacketHandler::operator()\<close>. The struct \<^verbatim>\<open>ipv4_header_t\<close> is declared in the
  missing header and the spec only says that \<^verbatim>\<open>dst_addr\<close> is read at a fixed offset,
  so the offset \<open>doff\<close> of \<^verbatim>\<open>dst_addr\<close> in the struct is a parameter; the struct
  ends with \<^verbatim>\<open>dst_addr\<close>. The subtractions \<^verbatim>\<open>size - offset\<close> are on
  \<^verbatim>\<open>size_t\<close>; each is reached only with \<^verbatim>\<open>offset \<le> size\<close>, so none wraps.
\<close>

definition sizeof_ipv4_header :: "nat \<Rightarrow> nat" where
  "sizeof_ipv4_header doff = doff + 4"

definition PacketHandler :: "nat \<Rightarrow> device \<Rightarrow> mgr \<Rightarrow> Packet \<Rightarrow> failure + mgr" where
  "PacketHandler doff dev s pkt =
     (let size = length pkt; offset = 0 in
      if size - offset < sizeof_cpu_header then Inr s
      else if take 8 pkt \<noteq> replicate 8 0 then Inr s
      else
        let reason = ntohs pkt 8; port = ntohs pkt 10;
            offset = offset + sizeof_cpu_header
        in if size - offset < sizeof_eth_header then Inr s
           else
             let offset = offset + sizeof_eth_header
             in if reason = NO_ARP_ENTRY
                then (if size - offset < sizeof_ipv4_header doff then Inr s
                      else Inr (handle_ip s pkt (ntohl pkt (offset + doff))))
                else if reason = ARP_MSG
                then (if size - offset < sizeof_arp_header then Inr s
                      else handle_arp dev s (read_arp_header pkt offset))
                else Inr s)"

section \<open>Counter query\<close>

definition UINT64_MAX :: "64 word" where
  "UINT64_MAX = 18446744073709551615"

text \<open>
  \<^verbatim>\<open>query_counter_\<close>. The macro \<^verbatim>\<open>PI_INVALID_ID\<close> comes from the PI library's
  headers and is a parameter. The result is the return code and the counter data
  behind the pointer \<^verbatim>\<open>counter_data\<close>.
\<close>

definition query_counter' ::
  "pi_p4_id_t \<Rightarrow> device \<Rightarrow> mgr \<Rightarrow> string \<Rightarrow> 64 word \<Rightarrow> CounterData
     \<Rightarrow> failure + (int \<times> CounterData \<times> mgr)" where
  "query_counter' PI_INVALID_ID dev s counter_name index counter_data =
     (let counter_id = counter_id_from_name (p4info s) counter_name in
      if counter_id = PI_INVALID_ID then Inr (1, counter_data, s)
      else
        (case counter_read dev (dev_log s) counter_id of
           None \<Rightarrow> Inl AssertionFailed
         | Some entries \<Rightarrow>
             (let s1 = s\<lparr>dev_log := dev_log s @ [CounterRead (dev_id s) counter_id]\<rparr> in
              case find (\<lambda>entry. ce_counter_id entry = counter_id \<and> ce_index entry = index)
                     entries of
                Some entry \<Rightarrow> Inr (0, ce_data entry, s1)
              | None \<Rightarrow> Inr (1, counter_data, s1))))"

text \<open>
  \<^verbatim>\<open>CounterQueryHandler::operator()\<close>: the value it puts into the promise. A
  default-constructed \<^verbatim>\<open>CounterData\<close> has both fields 0.
\<close>

definition CounterQueryHandler ::
  "pi_p4_id_t \<Rightarrow> device \<Rightarrow> mgr \<Rightarrow> string \<Rightarrow> 64 word \<Rightarrow> failure + (CounterData \<times> mgr)" where
  "CounterQueryHandler PI_INVALID_ID dev s counter_name index =
     (case query_counter' PI_INVALID_ID dev s counter_name index (CounterData 0 0) of
        Inl e \<Rightarrow> Inl e
      | Inr (rc, d, s1) \<Rightarrow>
          Inr (if rc \<noteq> 0 then CounterData UINT64_MAX (cd_bytes d) else d, s1))"

text \<open>
  \<^verbatim>\<open>query_counter\<close>: posts the handler, waits for the promise and reads it. The
  out-parameters \<^verbatim>\<open>*packets\<close> and \<^verbatim>\<open>*bytes\<close> are written only on return code 0.
\<close>

definition query_counter ::
  "pi_p4_id_t \<Rightarrow> device \<Rightarrow> mgr \<Rightarrow> string \<Rightarrow> 64 word
     \<Rightarrow> failure + (int \<times> (64 word \<times> 64 word) option \<times> mgr)" where
  "query_counter PI_INVALID_ID dev s counter_name index =
     (case CounterQueryHandler PI_INVALID_ID dev s counter_name index of
        Inl e \<Rightarrow> Inl e
      | Inr (counter_data, s1) \<Rightarrow>
          if cd_packets counter_data = UINT64_MAX then Inr (1, None, s1)
          else Inr (0, Some (cd_packets counter_data, cd_bytes counter_data), s1))"

section \<open>Pipeline reload\<close>

text \<open>
  \<^verbatim>\<open>update_config_\<close>. \<^verbatim>\<open>pi_add_config\<close> is the PI library's parser and is a
  parameter; its status is not looked at by the source.
\<close>

definition update_config' ::
  "(string \<Rightarrow> p4info_t) \<Rightarrow> device \<Rightarrow> mgr \<Rightarrow> string \<Rightarrow> failure + (int \<times> mgr)" where
  "update_config' pi_add_config dev s config_buffer =
     (let p4info_new = pi_add_config config_buffer;
          s1 = s\<lparr>p4info := p4info_new\<rparr>
      in case update_start dev (dev_log s1) (p4info s1) config_buffer of
           None \<Rightarrow> Inl AssertionFailed
         | Some code1 \<Rightarrow>
             (let s2 = s1\<lparr>dev_log := dev_log s1
                            @ [DeviceUpdateStart (dev_id s1) (p4info s1) config_buffer]\<rparr>
              in if code1 \<noteq> OK then Inr (1, s2)
                 else
                   (case set_default_entries dev s2 of
                      Inl e \<Rightarrow> Inl e
                    | Inr (r3, s3) \<Rightarrow>
                   (case static_config' dev s3 DEVICE_STATE of
                      Inl e \<Rightarrow> Inl e
                    | Inr (r4, s4) \<Rightarrow>
                   (case update_end dev (dev_log s4) of
                      None \<Rightarrow> Inl AssertionFailed
                    | Some code2 \<Rightarrow>
                        (let s5 = s4\<lparr>dev_log := dev_log s4 @ [DeviceUpdateEnd (dev_id s4)]\<rparr>
                         in if code2 \<noteq> OK then Inr (1, s5) else Inr (0, s5)))))))"

section \<open>Sequences of operations\<close>

text \<open>
  The constructor leaves the containers empty. A step is one operation of the manager
  that returns, with any arguments and any answers of the device; the command actor
  runs the operations one at a time, so a run is a sequence of steps.
\<close>

definition init_mgr :: "int \<Rightarrow> p4info_t \<Rightarrow> mgr" where
  "init_mgr d info =
     \<lparr> dev_id = d, p4info = info, ifaces = [], next_hops = Map.empty,
       packet_queues = Map.empty, dev_log = [], pkt_out = [] \<rparr>"

inductive step :: "mgr \<Rightarrow> mgr \<Rightarrow> bool" where
  packet_in: "PacketHandler doff dev s pkt = Inr s' \<Longrightarrow> step s s'"
| route: "add_route dev s prefix pLen nhop port = Inr (rc, s') \<Longrightarrow> step s s'"
| iface: "add_iface dev s port ip m = Inr s' \<Longrightarrow> step s s'"
| defaults: "set_default_entries dev s = Inr (rc, s') \<Longrightarrow> step s s'"
| static: "static_config dev s = Inr (rc, s') \<Longrightarrow> step s s'"
| reload: "update_config' pi_add_config dev s cfg = Inr (rc, s') \<Longrightarrow> step s s'"
| counter: "query_counter invalid_id dev s name idx = Inr (rc, res, s') \<Longrightarrow> step s s'"

inductive reachable :: "mgr \<Rightarrow> bool" where
  init: "reachable (init_mgr d info)"
| after: "reachable s \<Longrightarrow> step s s' \<Longrightarrow> reachable s'"

text \<open>A device whose RPCs never fail at the transport level.\<close>

definition transport_ok :: "device \<Rightarrow> bool" where
  "transport_ok dev =
     ((\<forall>log e. table_write dev log e \<noteq> None)
      \<and> (\<forall>log info cfg. update_start dev log info cfg \<noteq> None)
      \<and> (\<forall>log. update_end dev log \<noteq> None))"

text \<open>
  The entries that \<^verbatim>\<open>static_config_(DEVICE_STATE)\<close> writes, in order, with the
  pipeline description \<open>info\<close> and the interface list \<open>ifs\<close>: the two fixed routes,
  then the MAC of the first interface on port 1 and on port 2, where there is one.
\<close>

definition static_device_entries :: "p4info_t \<Rightarrow> Iface list \<Rightarrow> TableEntry list" where
  "static_device_entries info ifs =
     [route_entry info 32 0x0a00000a 1, route_entry info 32 0x0a00010a 2]
       @ (case find (\<lambda>iface. port_num iface = 1) ifs of
            None \<Rightarrow> [] | Some iface \<Rightarrow> [mac_entry info 1 (mac_addr iface)])
       @ (case find (\<lambda>iface. port_num iface = 2) ifs of
            None \<Rightarrow> [] | Some iface \<Rightarrow> [mac_entry info 2 (mac_addr iface)])"

text \<open>
  The requests of a reload between its start and \<^verbatim>\<open>DeviceUpdateEnd\<close>: the
  \<^verbatim>\<open>DeviceUpdateStart\<close>, the default entry and the entries of
  \<^verbatim>\<open>static_config_(DEVICE_STATE)\<close>, all built with the new description.
\<close>

definition reload_requests :: "mgr \<Rightarrow> p4info_t \<Rightarrow> string \<Rightarrow> request list" where
  "reload_requests s info cfg =
     DeviceUpdateStart (dev_id s) info cfg
       # map (TableWrite (dev_id s))
           (default_forward_entry info # static_device_entries info (ifaces s))"

text \<open>
  The packet that \<^verbatim>\<open>handle_arp_reply\<close> sends for the queued packet \<open>p\<close>: the CPU
  header is overwritten, then the Ethernet destination; the rest of \<open>p\<close> stays.
\<close>

definition reinjected :: "16 word \<Rightarrow> mac \<Rightarrow> Packet \<Rightarrow> Packet" where
  "reinjected port m p = set_cpu_header DATA_PKT port @ mac_bytes m @ drop 18 p"

text \<open>
  The pending queues are well formed: every destination with a queue has a next hop,
  and its queue is not empty and holds packets that reach past the Ethernet
  destination address.
\<close>

definition queues_ok :: "mgr \<Rightarrow> bool" where
  "queues_ok s =
     (\<forall>dst q. packet_queues s dst = Some q \<longrightarrow>
        next_hops s dst \<noteq> None \<and> q \<noteq> [] \<and> (\<forall>p \<in> set q. 18 \<le> length p))"

text \<open>
  What one operation may do to the tables: next hops are only added; a queue is left
  as it is, removed, or extended by one packet for a destination that has a next hop.
\<close>

definition queue_change :: "mgr \<Rightarrow> mgr \<Rightarrow> bool" where
  "queue_change s s' =
     (dom (next_hops s) \<subseteq> dom (next_hops s')
      \<and> (\<forall>dst. packet_queues s' dst = packet_queues s dst
               \<or> packet_queues s' dst = None
               \<or> (\<exists>p. next_hops s dst \<noteq> None \<and> 18 \<le> length p
                      \<and> packet_queues s' dst =
                          Some ((case packet_queues s dst of None \<Rightarrow> [] | Some q \<Rightarrow> q) @ [p]))))"

section \<open>Concrete pipelines, devices, states and packets\<close>

text \<open>A pipeline description with the names the manager resolves.\<close>

definition info0 :: p4info_t where
  "info0 =
     \<lparr> table_id_from_name =
         (\<lambda>n. if n = ''ipv4_lpm'' then 1 else if n = ''forward'' then 2
              else if n = ''send_frame'' then 3 else 0),
       action_id_from_name =
         (\<lambda>n. if n = ''set_nhop'' then 1 else if n = ''set_dmac'' then 2
              else if n = ''rewrite_mac'' then 3 else if n = ''_drop'' then 4 else 0),
       field_id_from_name =
         (\<lambda>n. if n = ''ipv4.dstAddr'' then 1
              else if n = ''routing_metadata.nhop_ipv4'' then 2
              else if n = ''standard_metadata.egress_port'' then 3 else 0),
       action_param_id_from_name =
         (\<lambda>a n. if n = ''nhop_ipv4'' then 1 else if n = ''port'' then 2
                else if n = ''dmac'' then 1 else if n = ''smac'' then 1 else 0),
       counter_id_from_name = (\<lambda>n. if n = ''ingress_counter'' then 1 else 0) \<rparr>"

definition dev_ok :: device where
  "dev_ok =
     \<lparr> table_write = (\<lambda>log e. Some 0),
       update_start = (\<lambda>log info cfg. Some 0),
       update_end = (\<lambda>log. Some 0),
       counter_read = (\<lambda>log c. Some [CounterEntry 1 0 (CounterData 7 700)]) \<rparr>"

definition dev_err :: device where
  "dev_err =
     \<lparr> table_write = (\<lambda>log e. Some 1),
       update_start = (\<lambda>log info cfg. Some 2),
       update_end = (\<lambda>log. Some 2),
       counter_read =
         (\<lambda>log c. Some [CounterEntry 1 0 (CounterData 18446744073709551615 700)]) \<rparr>"

definition mgr0 :: mgr where
  "mgr0 = init_mgr 0 info0"

text \<open>A second pipeline description, with other ids for the same names.\<close>

definition info1 :: p4info_t where
  "info1 =
     \<lparr> table_id_from_name =
         (\<lambda>n. if n = ''ipv4_lpm'' then 11 else if n = ''forward'' then 12
              else if n = ''send_frame'' then 13 else 0),
       action_id_from_name =
         (\<lambda>n. if n = ''set_nhop'' then 21 else if n = ''set_dmac'' then 22
              else if n = ''rewrite_mac'' then 23 else if n = ''_drop'' then 24 else 0),
       field_id_from_name =
         (\<lambda>n. if n = ''ipv4.dstAddr'' then 31
              else if n = ''routing_metadata.nhop_ipv4'' then 32
              else if n = ''standard_metadata.egress_port'' then 33 else 0),
       action_param_id_from_name =
         (\<lambda>a n. if n = ''nhop_ipv4'' then 41 else if n = ''port'' then 42
                else if n = ''dmac'' then 41 else if n = ''smac'' then 41 else 0),
       counter_id_from_name = (\<lambda>n. if n = ''ingress_counter'' then 51 else 0) \<rparr>"

definition pi_add_config0 :: "string \<Rightarrow> p4info_t" where
  "pi_add_config0 cfg = info1"

definition if1 :: Iface where
  "if1 = \<lparr> port_num = 1, ip_addr = 0x0a000001, mac_addr = hw1 \<rparr>"

definition if2 :: Iface where
  "if2 = \<lparr> port_num = 2, ip_addr = 0x0a000101, mac_addr = hw2 \<rparr>"

text \<open>
  The manager after \<^verbatim>\<open>static_config()\<close>, and after a further
  \<^verbatim>\<open>add_route(10.0.2.0, 24, 10.0.2.10, 3)\<close>.
\<close>

definition mgr_cfg :: mgr where
  "mgr_cfg =
     \<lparr> dev_id = 0, p4info = info0, ifaces = [if1, if2],
       next_hops = [0x0a00000a \<mapsto> 1, 0x0a00010a \<mapsto> 2],
       packet_queues = Map.empty,
       dev_log = map (TableWrite 0) (static_device_entries info0 [if1, if2]),
       pkt_out = [] \<rparr>"

definition mgr_dyn :: mgr where
  "mgr_dyn =
     mgr_cfg\<lparr> next_hops := (next_hops mgr_cfg)(0x0a00020a \<mapsto> 3),
              dev_log := dev_log mgr_cfg @ [TableWrite 0 (route_entry info0 24 0x0a00020a 3)] \<rparr>"

text \<open>An ARP request from 10.0.0.10 for the address 10.0.0.1 of the interface on port 1.\<close>

definition arp_request_hdr :: arp_header_t where
  "arp_request_hdr =
     \<lparr> hw_type = 1, proto_type = 0x800, hw_addr_len = 6, proto_addr_len = 4, opcode = 1,
       hw_src_addr = Mac 0x00 0xaa 0xbb 0x00 0x00 0x02, proto_src_addr = 0x0a00000a,
       hw_dst_addr = broadcast_addr, proto_dst_addr = 0x0a000001 \<rparr>"

text \<open>
  The host 10.0.0.10 behind port 1, with MAC 00:aa:bb:00:00:02. Two packets for it that
  the device punts with reason \<^verbatim>\<open>NO_ARP_ENTRY\<close> (the second has a payload), the
  host's ARP reply, and an ARP message with the unknown opcode 3.
\<close>

definition host_mac :: mac where
  "host_mac = Mac 0x00 0xaa 0xbb 0x00 0x00 0x02"

definition pkt_ip :: Packet where
  "pkt_ip =
     set_cpu_header NO_ARP_ENTRY 2
       @ set_eth_header hw2 (Mac 0x00 0xaa 0xbb 0x00 0x00 0x03) 0x0800
       @ replicate 16 0x45 @ htonl 0x0a00000a"

definition pkt_ip2 :: Packet where
  "pkt_ip2 = pkt_ip @ [1, 2, 3]"

definition arp_reply_hdr :: arp_header_t where
  "arp_reply_hdr =
     \<lparr> hw_type = 1, proto_type = 0x800, hw_addr_len = 6, proto_addr_len = 4, opcode = 2,
       hw_src_addr = host_mac, proto_src_addr = 0x0a00000a,
       hw_dst_addr = hw1, proto_dst_addr = 0x0a000001 \<rparr>"

definition pkt_arp_bad :: Packet where
  "pkt_arp_bad =
     set_cpu_header ARP_MSG 1 @ set_eth_header hw1 host_mac 0x0806
       @ set_arp_header 3 host_mac 0x0a00000a hw1 0x0a000001"

text \<open>
  The manager after the first and after the second punted packet for 10.0.0.10: the
  destination is being resolved.
\<close>

definition mgr_res :: mgr where
  "mgr_res =
     mgr_cfg\<lparr> packet_queues := [0x0a00000a \<mapsto> [pkt_ip]],
              pkt_out := [arp_request_packet if1 1 0x0a00000a] \<rparr>"

definition mgr_res2 :: mgr where
  "mgr_res2 =
     mgr_cfg\<lparr> packet_queues := [0x0a00000a \<mapsto> [pkt_ip, pkt_ip2]],
              pkt_out := [arp_request_packet if1 1 0x0a00000a,
                          arp_request_packet if1 1 0x0a00000a] \<rparr>"

section \<open>Route installation\<close>

text \<open>
  Claim C5. A call of \<^verbatim>\<open>add_route\<close> whose table write returns, with any number
  \<open>n\<close> of errors (zero or not), leaves the next-hop table mapping \<open>nhop\<close> to
  \<open>port\<close>, has issued the table write of the route entry to the device, and returns
  \<open>n\<close>: both updates are performed, and the controller-side one does not depend on
  the device's answer.
\<close>

theorem add_route_updates_both:
  assumes "table_write dev (dev_log s) (route_entry (p4info s) pLen nhop port) = Some n"
  shows "add_route dev s prefix pLen nhop port =
           Inr (int n,
                s\<lparr>next_hops := (next_hops s)(nhop \<mapsto> port),
                  dev_log := dev_log s
                     @ [TableWrite (dev_id s) (route_entry (p4info s) pLen nhop port)]\<rparr>)"
  using assms by (simp add: add_route_def add_route'_def add_one_entry_def)

theorem add_route_updates_both_witness:
  "table_write dev_err (dev_log mgr0) (route_entry (p4info mgr0) 32 0x0a00000a 1) = Some 1
   \<and> add_route dev_err mgr0 0x0a00000a 32 0x0a00000a 1 =
       Inr (1, mgr0\<lparr>next_hops := (next_hops mgr0)(0x0a00000a \<mapsto> 1),
                   dev_log := dev_log mgr0
                     @ [TableWrite (dev_id mgr0) (route_entry (p4info mgr0) 32 0x0a00000a 1)]\<rparr>)"
proof -
  have h: "table_write dev_err (dev_log mgr0) (route_entry (p4info mgr0) 32 0x0a00000a 1) = Some 1"
    by (simp add: dev_err_def)
  from add_route_updates_both [OF h, where prefix = "0x0a00000a"] h show ?thesis by simp
qed

section \<open>Default entries\<close>

text \<open>
  Claim C8. \<^verbatim>\<open>set_default_entries\<close> returns 0 whatever number \<open>n\<close> of errors the
  table write of the default entry reports: the error count is never stored in
  \<^verbatim>\<open>rc\<close>. The claim (a non-zero return whenever the write reports errors) fails
  at every \<open>n > 0\<close>.
\<close>

theorem set_default_entries_returns_zero:
  assumes "table_write dev (dev_log s) (default_forward_entry (p4info s)) = Some n"
  shows "set_default_entries dev s =
           Inr (0, s\<lparr>dev_log := dev_log s
                        @ [TableWrite (dev_id s) (default_forward_entry (p4info s))]\<rparr>)"
  using assms by (simp add: set_default_entries_def add_one_entry_def)

theorem set_default_entries_returns_zero_witness:
  "table_write dev_err (dev_log mgr0) (default_forward_entry (p4info mgr0)) = Some 1
   \<and> (case set_default_entries dev_err mgr0 of Inl e \<Rightarrow> False | Inr (rc, s') \<Rightarrow> rc = 0)"
proof -
  have h: "table_write dev_err (dev_log mgr0) (default_forward_entry (p4info mgr0)) = Some 1"
    by (simp add: dev_err_def)
  from set_default_entries_returns_zero [OF h] h show ?thesis by simp
qed

section \<open>The counter sentinel\<close>

lemma UINT64_MAX_iff: "(x = UINT64_MAX) = (unat x = 2 ^ 64 - 1)"
proof -
  have "unat UINT64_MAX = 2 ^ 64 - 1"
    by (simp add: UINT64_MAX_def)
  then show ?thesis
    by (metis word_unat_eq_iff)
qed

text \<open>
  Claim C10. Whatever \<^verbatim>\<open>query_counter_\<close> returns in the actor (return code
  \<open>rc\<close> and data \<open>d\<close>), \<^verbatim>\<open>query_counter\<close> returns 1 and writes no result
  exactly when the lookup failed or the packet count read, as an unsigned number, is
  \<open>2^64 - 1\<close>: a read that succeeds with that count gives the caller the same
  answer as an unknown counter.
\<close>

theorem query_counter_sentinel:
  assumes "query_counter' invalid_id dev s name idx (CounterData 0 0) = Inr (rc, d, s1)"
  shows "query_counter invalid_id dev s name idx =
           (if rc \<noteq> 0 \<or> unat (cd_packets d) = 2 ^ 64 - 1 then Inr (1, None, s1)
            else Inr (0, Some (cd_packets d, cd_bytes d), s1))"
proof -
  from assms have "query_counter invalid_id dev s name idx =
           (if rc \<noteq> 0 \<or> cd_packets d = UINT64_MAX then Inr (1, None, s1)
            else Inr (0, Some (cd_packets d, cd_bytes d), s1))"
    by (simp add: query_counter_def CounterQueryHandler_def)
  then show ?thesis
    unfolding UINT64_MAX_iff .
qed

theorem query_counter_sentinel_witness:
  "query_counter' 0 dev_err mgr0 ''ingress_counter'' 0 (CounterData 0 0) =
       Inr (0, CounterData 18446744073709551615 700, mgr0\<lparr>dev_log := [CounterRead 0 1]\<rparr>)
   \<and> unat (18446744073709551615 :: 64 word) = 2 ^ 64 - 1
   \<and> query_counter 0 dev_err mgr0 ''ingress_counter'' 0 =
       Inr (1, None, mgr0\<lparr>dev_log := [CounterRead 0 1]\<rparr>)
   \<and> query_counter 0 dev_err mgr0 ''no_such_counter'' 0 = Inr (1, None, mgr0)
   \<and> query_counter 0 dev_ok mgr0 ''ingress_counter'' 0 =
       Inr (0, Some (7, 700), mgr0\<lparr>dev_log := [CounterRead 0 1]\<rparr>)"
proof -
  have h: "query_counter' 0 dev_err mgr0 ''ingress_counter'' 0 (CounterData 0 0) =
       Inr (0, CounterData 18446744073709551615 700, mgr0\<lparr>dev_log := [CounterRead 0 1]\<rparr>)"
    by (simp add: query_counter'_def dev_err_def mgr0_def init_mgr_def info0_def)
  have u: "query_counter' 0 dev_err mgr0 ''no_such_counter'' 0 (CounterData 0 0) =
       Inr (1, CounterData 0 0, mgr0)"
    by (simp add: query_counter'_def dev_err_def mgr0_def init_mgr_def info0_def)
  have k: "query_counter' 0 dev_ok mgr0 ''ingress_counter'' 0 (CounterData 0 0) =
       Inr (0, CounterData 7 700, mgr0\<lparr>dev_log := [CounterRead 0 1]\<rparr>)"
    by (simp add: query_counter'_def dev_ok_def mgr0_def init_mgr_def info0_def)
  from query_counter_sentinel [OF h] query_counter_sentinel [OF u]
    query_counter_sentinel [OF k] h
  show ?thesis by simp
qed

section \<open>What a reload replays\<close>

lemma transport_ok_add_one_entry:
  "transport_ok dev \<Longrightarrow>
     add_one_entry dev s e =
       Inr (int (the (table_write dev (dev_log s) e)),
            s\<lparr>dev_log := dev_log s @ [TableWrite (dev_id s) e]\<rparr>)"
  by (auto simp: transport_ok_def add_one_entry_def split: option.splits)

lemma add_route'_device:
  "transport_ok dev \<Longrightarrow>
     add_route' dev s prefix pLen nhop port DEVICE_STATE =
       Inr (int (the (table_write dev (dev_log s) (route_entry (p4info s) pLen nhop port))),
            s\<lparr>dev_log := dev_log s @ [TableWrite (dev_id s) (route_entry (p4info s) pLen nhop port)]\<rparr>)"
  by (simp add: add_route'_def transport_ok_add_one_entry)

lemma add_route'_controller:
  "add_route' dev s prefix pLen nhop port CONTROLLER_STATE =
       Inr (0, s\<lparr>next_hops := (next_hops s)(nhop \<mapsto> port)\<rparr>)"
  by (simp add: add_route'_def)

lemma add_iface'_device:
  "transport_ok dev \<Longrightarrow>
     add_iface' dev s port ip m DEVICE_STATE =
       Inr (s\<lparr>dev_log := dev_log s @ map (TableWrite (dev_id s))
              (case find (\<lambda>iface. port_num iface = port) (ifaces s) of
                 None \<Rightarrow> [] | Some iface \<Rightarrow> [mac_entry (p4info s) port (mac_addr iface)])\<rparr>)"
  by (simp add: add_iface'_def assign_mac_addr_def transport_ok_add_one_entry split: option.splits)

lemma add_iface'_controller:
  "add_iface' dev s port ip m CONTROLLER_STATE =
       Inr (s\<lparr>ifaces := ifaces s @ [\<lparr>port_num = port, ip_addr = ip, mac_addr = m\<rparr>]\<rparr>)"
  by (simp add: add_iface'_def)

lemma static_config'_device:
  "transport_ok dev \<Longrightarrow>
     static_config' dev s DEVICE_STATE =
       Inr (0, s\<lparr>dev_log := dev_log s
                    @ map (TableWrite (dev_id s)) (static_device_entries (p4info s) (ifaces s))\<rparr>)"
  by (simp add: static_config'_def add_route'_device add_iface'_device static_device_entries_def
        split: option.splits)

lemma set_default_entries_ok:
  "transport_ok dev \<Longrightarrow>
     set_default_entries dev s =
       Inr (0, s\<lparr>dev_log := dev_log s @ [TableWrite (dev_id s) (default_forward_entry (p4info s))]\<rparr>)"
  by (simp add: set_default_entries_def transport_ok_add_one_entry)

lemma update_config'_eq:
  assumes "transport_ok dev"
  shows "update_config' pi_add_config dev s cfg =
     (if update_start dev (dev_log s) (pi_add_config cfg) cfg \<noteq> Some OK
      then Inr (1, s\<lparr>p4info := pi_add_config cfg,
                     dev_log := dev_log s @ [DeviceUpdateStart (dev_id s) (pi_add_config cfg) cfg]\<rparr>)
      else Inr (if update_end dev (dev_log s @ reload_requests s (pi_add_config cfg) cfg) = Some OK
                then 0 else 1,
                s\<lparr>p4info := pi_add_config cfg,
                  dev_log := dev_log s @ reload_requests s (pi_add_config cfg) cfg
                     @ [DeviceUpdateEnd (dev_id s)]\<rparr>))"
proof -
  from assms have us: "update_start dev (dev_log s) (pi_add_config cfg) cfg \<noteq> None"
    and ue: "\<And>log. update_end dev log \<noteq> None"
    by (simp_all add: transport_ok_def)
  show ?thesis
    using us ue [of "dev_log s @ reload_requests s (pi_add_config cfg) cfg"]
    by (auto simp: update_config'_def set_default_entries_ok [OF assms]
          static_config'_device [OF assms] reload_requests_def Let_def)
qed

lemma transport_ok_dev_ok: "transport_ok dev_ok"
  by (simp add: transport_ok_def dev_ok_def)

lemma transport_ok_dev_err: "transport_ok dev_err"
  by (simp add: transport_ok_def dev_err_def)

lemma dev_ok_simps:
  "table_write dev_ok log e = Some 0"
  "update_start dev_ok log info cfg = Some 0"
  "update_end dev_ok log = Some 0"
  by (simp_all add: dev_ok_def)

lemma static_config_mgr0: "static_config dev_ok mgr0 = Inr (0, mgr_cfg)"
  by (simp add: static_config_def static_config'_def add_route'_controller add_iface'_controller
        add_route'_device [OF transport_ok_dev_ok] add_iface'_device [OF transport_ok_dev_ok]
        mgr0_def init_mgr_def mgr_cfg_def static_device_entries_def if1_def if2_def dev_ok_simps)

lemma add_route_mgr_cfg: "add_route dev_ok mgr_cfg 0x0a000200 24 0x0a00020a 3 = Inr (0, mgr_dyn)"
  by (simp add: add_route_def add_route'_controller add_route'_device [OF transport_ok_dev_ok]
        mgr_dyn_def mgr_cfg_def dev_ok_simps)

lemma reachable_mgr0: "reachable mgr0"
  unfolding mgr0_def by (rule reachable.init)

lemma reachable_mgr_cfg: "reachable mgr_cfg"
  by (rule reachable.after [OF reachable_mgr0 step.static [OF static_config_mgr0]])

lemma reachable_mgr_dyn: "reachable mgr_dyn"
  by (rule reachable.after [OF reachable_mgr_cfg step.route [OF add_route_mgr_cfg]])

text \<open>
  Claim C6. With a device whose RPCs return, \<^verbatim>\<open>update_config_\<close> returns, with
  code 0 or 1, and the code is 0 exactly when \<^verbatim>\<open>DeviceUpdateStart\<close> and
  \<^verbatim>\<open>DeviceUpdateEnd\<close> both answer \<open>OK\<close>. When the start does not answer
  \<open>OK\<close>, the only request issued is the start (no entry is pushed again) and the
  manager already holds the new pipeline description.
\<close>

theorem update_config_success_iff:
  assumes "transport_ok dev"
  shows "\<exists>rc s'. update_config' pi_add_config dev s cfg = Inr (rc, s')
           \<and> (rc = 0) =
               (update_start dev (dev_log s) (pi_add_config cfg) cfg = Some OK
                \<and> update_end dev (dev_log s @ reload_requests s (pi_add_config cfg) cfg) = Some OK)
           \<and> (rc = 0 \<or> rc = 1)
           \<and> (update_start dev (dev_log s) (pi_add_config cfg) cfg = Some OK
                \<or> s' = s\<lparr>p4info := pi_add_config cfg,
                          dev_log := dev_log s
                            @ [DeviceUpdateStart (dev_id s) (pi_add_config cfg) cfg]\<rparr>)"
  by (simp add: update_config'_eq [OF assms])

theorem update_config_success_iff_witness:
  "transport_ok dev_err
   \<and> update_start dev_err (dev_log mgr_cfg) (pi_add_config0 ''cfg'') ''cfg'' \<noteq> Some OK
   \<and> update_config' pi_add_config0 dev_err mgr_cfg ''cfg'' =
       Inr (1, mgr_cfg\<lparr>p4info := info1,
                      dev_log := dev_log mgr_cfg @ [DeviceUpdateStart 0 info1 ''cfg'']\<rparr>)
   \<and> transport_ok dev_ok
   \<and> (\<exists>s'. update_config' pi_add_config0 dev_ok mgr_cfg ''cfg'' = Inr (0, s'))"
proof -
  have n: "update_start dev_err (dev_log mgr_cfg) (pi_add_config0 ''cfg'') ''cfg'' \<noteq> Some OK"
    by (simp add: dev_err_def OK_def)
  from update_config_success_iff [OF transport_ok_dev_err, of pi_add_config0 mgr_cfg "''cfg''"]
  obtain rc s' where r: "update_config' pi_add_config0 dev_err mgr_cfg ''cfg'' = Inr (rc, s')"
    and iff: "(rc = 0) =
               (update_start dev_err (dev_log mgr_cfg) (pi_add_config0 ''cfg'') ''cfg'' = Some OK
                \<and> update_end dev_err
                     (dev_log mgr_cfg @ reload_requests mgr_cfg (pi_add_config0 ''cfg'') ''cfg'')
                    = Some OK)"
    and rc: "rc = 0 \<or> rc = 1"
    and st: "update_start dev_err (dev_log mgr_cfg) (pi_add_config0 ''cfg'') ''cfg'' = Some OK
             \<or> s' = mgr_cfg\<lparr>p4info := pi_add_config0 ''cfg'',
                          dev_log := dev_log mgr_cfg
                            @ [DeviceUpdateStart (dev_id mgr_cfg) (pi_add_config0 ''cfg'') ''cfg'']\<rparr>"
    by blast
  from iff n rc have "rc = 1" by simp
  moreover from st n have "s' = mgr_cfg\<lparr>p4info := info1,
                      dev_log := dev_log mgr_cfg @ [DeviceUpdateStart 0 info1 ''cfg'']\<rparr>"
    by (simp add: pi_add_config0_def mgr_cfg_def)
  ultimately have failure:
    "update_config' pi_add_config0 dev_err mgr_cfg ''cfg'' =
       Inr (1, mgr_cfg\<lparr>p4info := info1,
                      dev_log := dev_log mgr_cfg @ [DeviceUpdateStart 0 info1 ''cfg'']\<rparr>)"
    using r by simp
  from update_config_success_iff [OF transport_ok_dev_ok, of pi_add_config0 mgr_cfg "''cfg''"]
  obtain rc2 s2 where r2: "update_config' pi_add_config0 dev_ok mgr_cfg ''cfg'' = Inr (rc2, s2)"
    and iff2: "(rc2 = 0) =
               (update_start dev_ok (dev_log mgr_cfg) (pi_add_config0 ''cfg'') ''cfg'' = Some OK
                \<and> update_end dev_ok
                     (dev_log mgr_cfg @ reload_requests mgr_cfg (pi_add_config0 ''cfg'') ''cfg'')
                    = Some OK)"
    by blast
  from iff2 have "rc2 = 0" by (simp add: dev_ok_simps OK_def)
  with r2 have success: "\<exists>s'. update_config' pi_add_config0 dev_ok mgr_cfg ''cfg'' = Inr (0, s')"
    by simp
  from failure success n transport_ok_dev_err transport_ok_dev_ok show ?thesis by simp
qed

lemma mac_bytes_case: "mac_bytes m = (case m of Mac a b c d e f \<Rightarrow> [a, b, c, d, e, f])"
  by (cases m) simp

lemma static_bytes:
  "uint_to_string32 0 = [0, 0, 0, 0]"
  "uint_to_string32 0x0a00000a = [10, 0, 0, 10]"
  "uint_to_string32 0x0a00010a = [10, 0, 1, 10]"
  "uint_to_string32 0x0a00020a = [10, 0, 2, 10]"
  "uint_to_string16 1 = [0, 1]"
  "uint_to_string16 2 = [0, 2]"
  by (simp_all add: uint_to_string32_def uint_to_string16_def htonl_def htons_def)

lemma reload_requests_explicit:
  "reload_requests s info cfg =
     [DeviceUpdateStart (dev_id s) info cfg,
      TableWrite (dev_id s)
        (TableEntry (table_id_from_name info ''forward'')
           [FieldMatch (field_id_from_name info ''routing_metadata.nhop_ipv4'')
              (Exact [0, 0, 0, 0])]
           (Action (action_id_from_name info ''_drop'') [])),
      TableWrite (dev_id s)
        (TableEntry (table_id_from_name info ''ipv4_lpm'')
           [FieldMatch (field_id_from_name info ''ipv4.dstAddr'') (Lpm [10, 0, 0, 10] 32)]
           (Action (action_id_from_name info ''set_nhop'')
              [(action_param_id_from_name info (action_id_from_name info ''set_nhop'')
                  ''nhop_ipv4'', [10, 0, 0, 10]),
               (action_param_id_from_name info (action_id_from_name info ''set_nhop'')
                  ''port'', [0, 1])])),
      TableWrite (dev_id s)
        (TableEntry (table_id_from_name info ''ipv4_lpm'')
           [FieldMatch (field_id_from_name info ''ipv4.dstAddr'') (Lpm [10, 0, 1, 10] 32)]
           (Action (action_id_from_name info ''set_nhop'')
              [(action_param_id_from_name info (action_id_from_name info ''set_nhop'')
                  ''nhop_ipv4'', [10, 0, 1, 10]),
               (action_param_id_from_name info (action_id_from_name info ''set_nhop'')
                  ''port'', [0, 2])]))]
     @ (case find (\<lambda>iface. port_num iface = 1) (ifaces s) of
          None \<Rightarrow> []
        | Some iface \<Rightarrow>
            [TableWrite (dev_id s)
               (TableEntry (table_id_from_name info ''send_frame'')
                  [FieldMatch (field_id_from_name info ''standard_metadata.egress_port'')
                     (Exact [0, 1])]
                  (Action (action_id_from_name info ''rewrite_mac'')
                     [(action_param_id_from_name info (action_id_from_name info ''rewrite_mac'')
                         ''smac'',
                       case mac_addr iface of Mac a b c d e f \<Rightarrow> [a, b, c, d, e, f])]))])
     @ (case find (\<lambda>iface. port_num iface = 2) (ifaces s) of
          None \<Rightarrow> []
        | Some iface \<Rightarrow>
            [TableWrite (dev_id s)
               (TableEntry (table_id_from_name info ''send_frame'')
                  [FieldMatch (field_id_from_name info ''standard_metadata.egress_port'')
                     (Exact [0, 2])]
                  (Action (action_id_from_name info ''rewrite_mac'')
                     [(action_param_id_from_name info (action_id_from_name info ''rewrite_mac'')
                         ''smac'',
                       case mac_addr iface of Mac a b c d e f \<Rightarrow> [a, b, c, d, e, f])]))])"
  by (simp add: reload_requests_def static_device_entries_def default_forward_entry_def
        route_entry_def mac_entry_def static_bytes mac_bytes_case Let_def
        split: option.splits)

text \<open>
  Claim C3, amended. After a reload in which \<^verbatim>\<open>update_start\<close> and
  \<^verbatim>\<open>update_end\<close> both answer \<open>OK\<close>, the requests issued to the device are, in
  this order and nothing else: the start; the default entry of table
  \<^verbatim>\<open>forward\<close> (exact match on next hop 0.0.0.0, action \<^verbatim>\<open>_drop\<close>); the
  two routes of the static configuration in table \<^verbatim>\<open>ipv4_lpm\<close> (10.0.0.10/32 to
  next hop 10.0.0.10 and port 1, 10.0.1.10/32 to next hop 10.0.1.10 and port 2); the
  source MAC of the first interface on port 1 and of the first interface on port 2 in
  table \<^verbatim>\<open>send_frame\<close>, where there is one; the end. Every table, field, action
  and parameter id in them is looked up in the new description
  \<open>pi_add_config cfg\<close>. The manager holds the new description; its interfaces and
  its next-hop table are unchanged.
\<close>

theorem reload_replays_static_config:
  assumes "transport_ok dev"
    and "info = pi_add_config cfg"
    and "update_start dev (dev_log s) info cfg = Some OK"
    and "update_end dev (dev_log s @ reload_requests s info cfg) = Some OK"
  shows "update_config' pi_add_config dev s cfg =
           Inr (0, s\<lparr>p4info := info,
                      dev_log := dev_log s
                        @ (
                           [DeviceUpdateStart (dev_id s) info cfg,
                            TableWrite (dev_id s)
                              (TableEntry (table_id_from_name info ''forward'')
                                 [FieldMatch (field_id_from_name info ''routing_metadata.nhop_ipv4'')
                                    (Exact [0, 0, 0, 0])]
                                 (Action (action_id_from_name info ''_drop'') [])),
                            TableWrite (dev_id s)
                              (TableEntry (table_id_from_name info ''ipv4_lpm'')
                                 [FieldMatch (field_id_from_name info ''ipv4.dstAddr'') (Lpm [10, 0, 0, 10] 32)]
                                 (Action (action_id_from_name info ''set_nhop'')
                                    [(action_param_id_from_name info (action_id_from_name info ''set_nhop'')
                                        ''nhop_ipv4'', [10, 0, 0, 10]),
                                     (action_param_id_from_name info (action_id_from_name info ''set_nhop'')
                                        ''port'', [0, 1])])),
                            TableWrite (dev_id s)
                              (TableEntry (table_id_from_name info ''ipv4_lpm'')
                                 [FieldMatch (field_id_from_name info ''ipv4.dstAddr'') (Lpm [10, 0, 1, 10] 32)]
                                 (Action (action_id_from_name info ''set_nhop'')
                                    [(action_param_id_from_name info (action_id_from_name info ''set_nhop'')
                                        ''nhop_ipv4'', [10, 0, 1, 10]),
                                     (action_param_id_from_name info (action_id_from_name info ''set_nhop'')
                                        ''port'', [0, 2])]))]
                           @ (case find (\<lambda>iface. port_num iface = 1) (ifaces s) of
                                None \<Rightarrow> []
                              | Some iface \<Rightarrow>
                                  [TableWrite (dev_id s)
                                     (TableEntry (table_id_from_name info ''send_frame'')
                                        [FieldMatch (field_id_from_name info ''standard_metadata.egress_port'')
                                           (Exact [0, 1])]
                                        (Action (action_id_from_name info ''rewrite_mac'')
                                           [(action_param_id_from_name info (action_id_from_name info ''rewrite_mac'')
                                               ''smac'',
                                             case mac_addr iface of Mac a b c d e f \<Rightarrow> [a, b, c, d, e, f])]))])
                           @ (case find (\<lambda>iface. port_num iface = 2) (ifaces s) of
                                None \<Rightarrow> []
                              | Some iface \<Rightarrow>
                                  [TableWrite (dev_id s)
                                     (TableEntry (table_id_from_name info ''send_frame'')
                                        [FieldMatch (field_id_from_name info ''standard_metadata.egress_port'')
                                           (Exact [0, 2])]
                                        (Action (action_id_from_name info ''rewrite_mac'')
                                           [(action_param_id_from_name info (action_id_from_name info ''rewrite_mac'')
                                               ''smac'',
                                             case mac_addr iface of Mac a b c d e f \<Rightarrow> [a, b, c, d, e, f])]))]))
                        @ [DeviceUpdateEnd (dev_id s)]\<rparr>)"
  using assms(3,4) unfolding assms(2)
  by (simp add: update_config'_eq [OF assms(1)])
    (simp add: reload_requests_explicit)

theorem reload_replays_static_config_witness:
  "transport_ok dev_ok
   \<and> info1 = pi_add_config0 ''cfg''
   \<and> update_start dev_ok (dev_log mgr_dyn) info1 ''cfg'' = Some OK
   \<and> update_end dev_ok (dev_log mgr_dyn @ reload_requests mgr_dyn info1 ''cfg'') = Some OK
   \<and> update_config' pi_add_config0 dev_ok mgr_dyn ''cfg'' =
       Inr (0, mgr_dyn\<lparr>p4info := info1,
                      dev_log := dev_log mgr_dyn
                        @
                           [DeviceUpdateStart 0 info1 ''cfg'',
                            TableWrite 0
                              (TableEntry 12 [FieldMatch 32 (Exact [0, 0, 0, 0])] (Action 24 [])),
                            TableWrite 0
                              (TableEntry 11 [FieldMatch 31 (Lpm [10, 0, 0, 10] 32)]
                                 (Action 21 [(41, [10, 0, 0, 10]), (42, [0, 1])])),
                            TableWrite 0
                              (TableEntry 11 [FieldMatch 31 (Lpm [10, 0, 1, 10] 32)]
                                 (Action 21 [(41, [10, 0, 1, 10]), (42, [0, 2])])),
                            TableWrite 0
                              (TableEntry 13 [FieldMatch 33 (Exact [0, 1])]
                                 (Action 23 [(41, [0x00, 0xaa, 0xbb, 0x00, 0x00, 0x00])])),
                            TableWrite 0
                              (TableEntry 13 [FieldMatch 33 (Exact [0, 2])]
                                 (Action 23 [(41, [0x00, 0xaa, 0xbb, 0x00, 0x00, 0x01])])),
                            DeviceUpdateEnd 0]\<rparr>)"
proof -
  have i: "info1 = pi_add_config0 ''cfg''"
    by (simp add: pi_add_config0_def)
  have a: "update_start dev_ok (dev_log mgr_dyn) info1 ''cfg'' = Some OK"
    by (simp add: dev_ok_def OK_def)
  have b: "update_end dev_ok (dev_log mgr_dyn @ reload_requests mgr_dyn info1 ''cfg'') = Some OK"
    by (simp add: dev_ok_def OK_def)
  have f: "find (\<lambda>iface. port_num iface = 1) (ifaces mgr_dyn) = Some if1"
    "find (\<lambda>iface. port_num iface = 2) (ifaces mgr_dyn) = Some if2"
    "dev_id mgr_dyn = 0"
    by (simp_all add: mgr_dyn_def mgr_cfg_def if1_def if2_def)
  from reload_replays_static_config
         [where dev = dev_ok and s = mgr_dyn and pi_add_config = pi_add_config0
            and cfg = "''cfg''" and info = info1,
          OF transport_ok_dev_ok i a b]
  have "update_config' pi_add_config0 dev_ok mgr_dyn ''cfg'' =
       Inr (0, mgr_dyn\<lparr>p4info := info1,
                      dev_log := dev_log mgr_dyn
                        @
                           [DeviceUpdateStart 0 info1 ''cfg'',
                            TableWrite 0
                              (TableEntry 12 [FieldMatch 32 (Exact [0, 0, 0, 0])] (Action 24 [])),
                            TableWrite 0
                              (TableEntry 11 [FieldMatch 31 (Lpm [10, 0, 0, 10] 32)]
                                 (Action 21 [(41, [10, 0, 0, 10]), (42, [0, 1])])),
                            TableWrite 0
                              (TableEntry 11 [FieldMatch 31 (Lpm [10, 0, 1, 10] 32)]
                                 (Action 21 [(41, [10, 0, 1, 10]), (42, [0, 2])])),
                            TableWrite 0
                              (TableEntry 13 [FieldMatch 33 (Exact [0, 1])]
                                 (Action 23 [(41, [0x00, 0xaa, 0xbb, 0x00, 0x00, 0x00])])),
                            TableWrite 0
                              (TableEntry 13 [FieldMatch 33 (Exact [0, 2])]
                                 (Action 23 [(41, [0x00, 0xaa, 0xbb, 0x00, 0x00, 0x01])])),
                            DeviceUpdateEnd 0]\<rparr>)"
    by (simp add: f) (simp add: info1_def if1_def if2_def hw1_def hw2_def)
  with i a b transport_ok_dev_ok show ?thesis by simp
qed

text \<open>
  Claim C3 as stated fails: the route to 10.0.2.10 was added by \<^verbatim>\<open>add_route\<close>
  after startup and is in the next-hop table, the reload succeeds, and its requests
  are the start, the default entry, the two static routes, the two interface MACs and
  the end: no table write of the reload carries a route entry for 10.0.2.10, under
  any ids.
\<close>

theorem reload_misses_dynamic_route:
  "reachable mgr_dyn
   \<and> next_hops mgr_dyn 0x0a00020a = Some 3
   \<and> (\<exists>s'. update_config' pi_add_config0 dev_ok mgr_dyn ''cfg'' = Inr (0, s')
          \<and> drop (length (dev_log mgr_dyn)) (dev_log s') =
              [DeviceUpdateStart 0 info1 ''cfg'',
               TableWrite 0
                 (TableEntry 12 [FieldMatch 32 (Exact [0, 0, 0, 0])] (Action 24 [])),
               TableWrite 0
                 (TableEntry 11 [FieldMatch 31 (Lpm [10, 0, 0, 10] 32)]
                    (Action 21 [(41, [10, 0, 0, 10]), (42, [0, 1])])),
               TableWrite 0
                 (TableEntry 11 [FieldMatch 31 (Lpm [10, 0, 1, 10] 32)]
                    (Action 21 [(41, [10, 0, 1, 10]), (42, [0, 2])])),
               TableWrite 0
                 (TableEntry 13 [FieldMatch 33 (Exact [0, 1])]
                    (Action 23 [(41, [0x00, 0xaa, 0xbb, 0x00, 0x00, 0x00])])),
               TableWrite 0
                 (TableEntry 13 [FieldMatch 33 (Exact [0, 2])]
                    (Action 23 [(41, [0x00, 0xaa, 0xbb, 0x00, 0x00, 0x01])])),
               DeviceUpdateEnd 0]
          \<and> (\<forall>info pLen port.
                TableWrite 0 (route_entry info pLen 0x0a00020a port)
                  \<notin> set (drop (length (dev_log mgr_dyn)) (dev_log s'))))"
proof -
  have a: "update_start dev_ok (dev_log mgr_dyn) (pi_add_config0 ''cfg'') ''cfg'' = Some OK"
    by (simp add: dev_ok_def OK_def)
  have b: "update_end dev_ok
             (dev_log mgr_dyn @ reload_requests mgr_dyn (pi_add_config0 ''cfg'') ''cfg'') = Some OK"
    by (simp add: dev_ok_def OK_def)
  have f: "find (\<lambda>iface. port_num iface = 1) (ifaces mgr_dyn) = Some if1"
    "find (\<lambda>iface. port_num iface = 2) (ifaces mgr_dyn) = Some if2"
    "dev_id mgr_dyn = 0"
    by (simp_all add: mgr_dyn_def mgr_cfg_def if1_def if2_def)
  have q: "reload_requests mgr_dyn info1 ''cfg'' =
              [DeviceUpdateStart 0 info1 ''cfg'',
               TableWrite 0
                 (TableEntry 12 [FieldMatch 32 (Exact [0, 0, 0, 0])] (Action 24 [])),
               TableWrite 0
                 (TableEntry 11 [FieldMatch 31 (Lpm [10, 0, 0, 10] 32)]
                    (Action 21 [(41, [10, 0, 0, 10]), (42, [0, 1])])),
               TableWrite 0
                 (TableEntry 11 [FieldMatch 31 (Lpm [10, 0, 1, 10] 32)]
                    (Action 21 [(41, [10, 0, 1, 10]), (42, [0, 2])])),
               TableWrite 0
                 (TableEntry 13 [FieldMatch 33 (Exact [0, 1])]
                    (Action 23 [(41, [0x00, 0xaa, 0xbb, 0x00, 0x00, 0x00])])),
               TableWrite 0
                 (TableEntry 13 [FieldMatch 33 (Exact [0, 2])]
                    (Action 23 [(41, [0x00, 0xaa, 0xbb, 0x00, 0x00, 0x01])]))]"
    by (simp add: reload_requests_explicit f) (simp add: info1_def if1_def if2_def hw1_def hw2_def)
  have r: "update_config' pi_add_config0 dev_ok mgr_dyn ''cfg'' =
       Inr (0, mgr_dyn\<lparr>p4info := info1,
                      dev_log := dev_log mgr_dyn @ reload_requests mgr_dyn info1 ''cfg''
                        @ [DeviceUpdateEnd 0]\<rparr>)"
    using a b
    by (simp add: update_config'_eq [OF transport_ok_dev_ok] pi_add_config0_def f)
  have m: "TableWrite 0 (route_entry info pLen 0x0a00020a port)
             \<notin> set (reload_requests mgr_dyn info1 ''cfg'' @ [DeviceUpdateEnd 0])"
    for info pLen port
    unfolding q by (simp add: route_entry_def static_bytes Let_def)
  have n: "next_hops mgr_dyn 0x0a00020a = Some 3"
    by (simp add: mgr_dyn_def)
  have d: "drop (length (dev_log mgr_dyn))
             (dev_log mgr_dyn @ reload_requests mgr_dyn info1 ''cfg'' @ [DeviceUpdateEnd 0])
           = reload_requests mgr_dyn info1 ''cfg'' @ [DeviceUpdateEnd 0]"
    by simp
  show ?thesis
    using reachable_mgr_dyn n r m d by (simp add: q)
qed

section \<open>Header codec: decoding what was encoded\<close>

lemma ntohs_htons:
  "push_bit 8 (ucast (ucast (drop_bit 8 w) :: byte)) OR ucast (ucast w :: byte) = (w :: 16 word)"
  by (rule bit_word_eqI) (auto simp: bit_simps)

lemma ntohl_htonl:
  "push_bit 24 (ucast (ucast (drop_bit 24 w) :: byte))
     OR push_bit 16 (ucast (ucast (drop_bit 16 w) :: byte))
     OR push_bit 8 (ucast (ucast (drop_bit 8 w) :: byte))
     OR ucast (ucast w :: byte) = (w :: 32 word)"
proof (rule bit_word_eqI)
  fix n :: nat
  assume "n < LENGTH(32)"
  then have n: "n < 32" by simp
  consider "n < 8" | "8 \<le> n" "n < 16" | "16 \<le> n" "n < 24" | "24 \<le> n"
    by linarith
  then show "bit (push_bit 24 (ucast (ucast (drop_bit 24 w) :: byte))
       OR push_bit 16 (ucast (ucast (drop_bit 16 w) :: byte))
       OR push_bit 8 (ucast (ucast (drop_bit 8 w) :: byte))
       OR ucast (ucast w :: byte) :: 32 word) n = bit w n"
    using n by cases (auto simp: bit_simps)
qed

lemma ntohs_at: "length a = k \<Longrightarrow> ntohs (a @ htons w @ b) k = w"
  by (auto simp: ntohs_def htons_def nth_append ntohs_htons)

lemma ntohl_at: "length a = k \<Longrightarrow> ntohl (a @ htonl w @ b) k = w"
  by (auto simp: ntohl_def htonl_def nth_append ntohl_htonl)

lemma mac_at_at: "length a = k \<Longrightarrow> mac_at (a @ mac_bytes m @ b) k = m"
  by (cases m) (auto simp: mac_at_def nth_append)

lemma length_mac_bytes [simp]: "length (mac_bytes m) = 6"
  by (cases m) simp

lemma length_htons [simp]: "length (htons w) = 2"
  by (simp add: htons_def)

lemma length_htonl [simp]: "length (htonl w) = 4"
  by (simp add: htonl_def)

lemma length_set_cpu_header [simp]: "length (set_cpu_header r p) = 12"
  by (simp add: set_cpu_header_def)

lemma length_set_eth_header [simp]: "length (set_eth_header d s t) = 14"
  by (simp add: set_eth_header_def)

lemma length_set_arp_header [simp]: "length (set_arp_header opc a b c d) = 28"
  by (simp add: set_arp_header_def)

lemma read_arp_header_set:
  assumes "length a = k"
  shows "read_arp_header (a @ set_arp_header opc sha spa tha tpa @ b) k =
     \<lparr> hw_type = 1, proto_type = 0x800, hw_addr_len = 6, proto_addr_len = 4, opcode = opc,
       hw_src_addr = sha, proto_src_addr = spa, hw_dst_addr = tha, proto_dst_addr = tpa \<rparr>"
proof -
  let ?p = "a @ set_arp_header opc sha spa tha tpa @ b"
  have 1: "ntohs ?p k = 1"
    using ntohs_at [of a k 1 "htons 0x800 @ [6, 4] @ htons opc
       @ mac_bytes sha @ htonl spa @ mac_bytes tha @ htonl tpa @ b"] assms
    by (simp add: set_arp_header_def)
  have 2: "ntohs ?p (k + 2) = 0x800"
    using ntohs_at [of "a @ htons 1" "k + 2" "0x800" "[6, 4] @ htons opc
       @ mac_bytes sha @ htonl spa @ mac_bytes tha @ htonl tpa @ b"] assms
    by (simp add: set_arp_header_def)
  have 3: "?p ! (k + 4) = 6" "?p ! (k + 5) = 4"
    using assms by (simp_all add: set_arp_header_def nth_append)
  have 4: "ntohs ?p (k + 6) = opc"
    using ntohs_at [of "a @ htons 1 @ htons 0x800 @ [6, 4]" "k + 6" opc
       "mac_bytes sha @ htonl spa @ mac_bytes tha @ htonl tpa @ b"] assms
    by (simp add: set_arp_header_def)
  have 5: "mac_at ?p (k + 8) = sha"
    using mac_at_at [of "a @ htons 1 @ htons 0x800 @ [6, 4] @ htons opc" "k + 8" sha
       "htonl spa @ mac_bytes tha @ htonl tpa @ b"] assms
    by (simp add: set_arp_header_def)
  have 6: "ntohl ?p (k + 14) = spa"
    using ntohl_at [of "a @ htons 1 @ htons 0x800 @ [6, 4] @ htons opc @ mac_bytes sha"
       "k + 14" spa "mac_bytes tha @ htonl tpa @ b"] assms
    by (simp add: set_arp_header_def)
  have 7: "mac_at ?p (k + 18) = tha"
    using mac_at_at [of "a @ htons 1 @ htons 0x800 @ [6, 4] @ htons opc @ mac_bytes sha
       @ htonl spa" "k + 18" tha "htonl tpa @ b"] assms
    by (simp add: set_arp_header_def)
  have 8: "ntohl ?p (k + 24) = tpa"
    using ntohl_at [of "a @ htons 1 @ htons 0x800 @ [6, 4] @ htons opc @ mac_bytes sha
       @ htonl spa @ mac_bytes tha" "k + 24" tpa b] assms
    by (simp add: set_arp_header_def)
  show ?thesis
    by (simp only: read_arp_header_def 1 2 3 4 5 6 7 8)
qed

lemma take_set_cpu_header [simp]: "take 8 (set_cpu_header r p) = replicate 8 0"
  by (simp add: set_cpu_header_def)

lemma cpu_header_fields:
  "take 8 (set_cpu_header r p @ b) = replicate 8 0"
  "ntohs (set_cpu_header r p @ b) 8 = r"
  "ntohs (set_cpu_header r p @ b) 10 = p"
proof -
  show "take 8 (set_cpu_header r p @ b) = replicate 8 0"
    by (simp add: set_cpu_header_def)
  show "ntohs (set_cpu_header r p @ b) 8 = r"
    using ntohs_at [of "replicate 8 0" 8 r "htons p @ b"] by (simp add: set_cpu_header_def)
  show "ntohs (set_cpu_header r p @ b) 10 = p"
    using ntohs_at [of "replicate 8 0 @ htons r" 10 p b] by (simp add: set_cpu_header_def)
qed

lemma eth_header_fields:
  assumes "length a = k"
  shows "mac_at (a @ set_eth_header d s t @ b) k = d"
    and "mac_at (a @ set_eth_header d s t @ b) (k + 6) = s"
    and "ntohs (a @ set_eth_header d s t @ b) (k + 12) = t"
proof -
  show "mac_at (a @ set_eth_header d s t @ b) k = d"
    using mac_at_at [of a k d "mac_bytes s @ htons t @ b"] assms
    by (simp add: set_eth_header_def)
  show "mac_at (a @ set_eth_header d s t @ b) (k + 6) = s"
    using mac_at_at [of "a @ mac_bytes d" "k + 6" s "htons t @ b"] assms
    by (simp add: set_eth_header_def)
  show "ntohs (a @ set_eth_header d s t @ b) (k + 12) = t"
    using ntohs_at [of "a @ mac_bytes d @ mac_bytes s" "k + 12" t b] assms
    by (simp add: set_eth_header_def)
qed

lemma arp_reply_packet_fields:
  "length (arp_reply_packet iface h) = 54"
  "take 8 (arp_reply_packet iface h) = replicate 8 0"
  "ntohs (arp_reply_packet iface h) 8 = ARP_MSG"
  "ntohs (arp_reply_packet iface h) 10 = port_num iface"
  "mac_at (arp_reply_packet iface h) 12 = hw_src_addr h"
  "mac_at (arp_reply_packet iface h) 18 = mac_addr iface"
  "ntohs (arp_reply_packet iface h) 24 = 0x0806"
  "read_arp_header (arp_reply_packet iface h) 26 =
     \<lparr> hw_type = 1, proto_type = 0x800, hw_addr_len = 6, proto_addr_len = 4, opcode = 2,
       hw_src_addr = mac_addr iface, proto_src_addr = ip_addr iface,
       hw_dst_addr = hw_src_addr h, proto_dst_addr = proto_src_addr h \<rparr>"
proof -
  let ?c = "set_cpu_header ARP_MSG (port_num iface)"
  let ?e = "set_eth_header (hw_src_addr h) (mac_addr iface) 0x0806"
  let ?a = "set_arp_header 2 (mac_addr iface) (ip_addr iface) (hw_src_addr h) (proto_src_addr h)"
  show "length (arp_reply_packet iface h) = 54"
    by (simp add: arp_reply_packet_def)
  show "take 8 (arp_reply_packet iface h) = replicate 8 0"
    "ntohs (arp_reply_packet iface h) 8 = ARP_MSG"
    "ntohs (arp_reply_packet iface h) 10 = port_num iface"
    by (simp_all add: arp_reply_packet_def cpu_header_fields)
  show "mac_at (arp_reply_packet iface h) 12 = hw_src_addr h"
    "mac_at (arp_reply_packet iface h) 18 = mac_addr iface"
    "ntohs (arp_reply_packet iface h) 24 = 0x0806"
    using eth_header_fields [of ?c 12 "hw_src_addr h" "mac_addr iface" "0x0806" ?a]
    by (simp_all add: arp_reply_packet_def)
  show "read_arp_header (arp_reply_packet iface h) 26 =
     \<lparr> hw_type = 1, proto_type = 0x800, hw_addr_len = 6, proto_addr_len = 4, opcode = 2,
       hw_src_addr = mac_addr iface, proto_src_addr = ip_addr iface,
       hw_dst_addr = hw_src_addr h, proto_dst_addr = proto_src_addr h \<rparr>"
    using read_arp_header_set [of "?c @ ?e" 26 2 "mac_addr iface" "ip_addr iface"
        "hw_src_addr h" "proto_src_addr h" "[]"]
    by (simp add: arp_reply_packet_def)
qed


section \<open>ARP requests\<close>

text \<open>
  Claim C7. An ARP request (opcode 1) is answered from the first interface whose IP is
  the request's target address: exactly one packet is sent, of 54 bytes, whose CPU
  header carries that interface's port, whose Ethernet source is the interface's MAC
  (the destination is the requester's MAC), and whose ARP header has opcode 2, the
  interface's MAC and IP as sender and the request's sender MAC and IP as target. When
  no interface has that IP, nothing is sent and the state is unchanged.
\<close>

theorem arp_request_answered:
  assumes "opcode h = 1"
  shows "case find (\<lambda>iface. ip_addr iface = proto_dst_addr h) (ifaces s) of
           None \<Rightarrow> handle_arp dev s h = Inr s
         | Some iface \<Rightarrow>
             (\<exists>r. handle_arp dev s h = Inr (s\<lparr>pkt_out := pkt_out s @ [r]\<rparr>)
                \<and> length r = 54
                \<and> take 8 r = replicate 8 0
                \<and> ntohs r 8 = ARP_MSG
                \<and> ntohs r 10 = port_num iface
                \<and> mac_at r 12 = hw_src_addr h
                \<and> mac_at r 18 = mac_addr iface
                \<and> ntohs r 24 = 0x0806
                \<and> read_arp_header r 26 =
                    \<lparr> hw_type = 1, proto_type = 0x800, hw_addr_len = 6, proto_addr_len = 4,
                      opcode = 2,
                      hw_src_addr = mac_addr iface, proto_src_addr = ip_addr iface,
                      hw_dst_addr = hw_src_addr h, proto_dst_addr = proto_src_addr h \<rparr>)"
proof (cases "find (\<lambda>iface. ip_addr iface = proto_dst_addr h) (ifaces s)")
  case None
  with assms show ?thesis
    by (simp add: handle_arp_def handle_arp_request_def)
next
  case (Some iface)
  have "handle_arp dev s h = Inr (s\<lparr>pkt_out := pkt_out s @ [arp_reply_packet iface h]\<rparr>)"
    using assms Some by (simp add: handle_arp_def handle_arp_request_def send_packetout_def)
  with Some show ?thesis
    using arp_reply_packet_fields [of iface h]
    by (simp del: ex_simps) (intro exI [of _ "arp_reply_packet iface h"], simp)
qed

theorem arp_request_answered_witness:
  "opcode arp_request_hdr = 1
   \<and> (\<exists>r. handle_arp dev_ok mgr_cfg arp_request_hdr = Inr (mgr_cfg\<lparr>pkt_out := [r]\<rparr>)
        \<and> length r = 54
        \<and> ntohs r 10 = 1
        \<and> mac_at r 12 = Mac 0x00 0xaa 0xbb 0x00 0x00 0x02
        \<and> mac_at r 18 = hw1
        \<and> read_arp_header r 26 =
             \<lparr> hw_type = 1, proto_type = 0x800, hw_addr_len = 6, proto_addr_len = 4,
               opcode = 2,
               hw_src_addr = hw1, proto_src_addr = 0x0a000001,
               hw_dst_addr = Mac 0x00 0xaa 0xbb 0x00 0x00 0x02,
               proto_dst_addr = 0x0a00000a \<rparr>)"
proof -
  have o: "opcode arp_request_hdr = 1"
    by (simp add: arp_request_hdr_def)
  have f: "find (\<lambda>iface. ip_addr iface = proto_dst_addr arp_request_hdr) (ifaces mgr_cfg) = Some if1"
    by (simp add: arp_request_hdr_def mgr_cfg_def if1_def)
  from arp_request_answered [OF o, where s = mgr_cfg and dev = dev_ok] f o show ?thesis
    by (auto simp: mgr_cfg_def if1_def arp_request_hdr_def)
qed

section \<open>Tables and queues along a run\<close>

lemma queue_change_same:
  "packet_queues s' = packet_queues s \<Longrightarrow> dom (next_hops s) \<subseteq> dom (next_hops s')
     \<Longrightarrow> queue_change s s'"
  by (simp add: queue_change_def)

lemma add_one_entry_Inr:
  "add_one_entry dev s e = Inr (n, s') \<Longrightarrow>
     s' = s\<lparr>dev_log := dev_log s @ [TableWrite (dev_id s) e]\<rparr>"
  by (auto simp: add_one_entry_def split: option.splits)

lemma add_route'_tables:
  "add_route' dev s prefix pLen nhop port mode = Inr (rc, s') \<Longrightarrow>
     packet_queues s' = packet_queues s \<and> dom (next_hops s) \<subseteq> dom (next_hops s')
       \<and> ifaces s' = ifaces s"
  by (auto simp: add_route'_def split: if_splits sum.splits dest!: add_one_entry_Inr)

lemma add_iface'_tables:
  "add_iface' dev s port ip m mode = Inr s' \<Longrightarrow>
     packet_queues s' = packet_queues s \<and> next_hops s' = next_hops s"
  by (auto simp: add_iface'_def assign_mac_addr_def
        split: if_splits sum.splits option.splits dest!: add_one_entry_Inr)

lemma set_default_entries_tables:
  "set_default_entries dev s = Inr (rc, s') \<Longrightarrow>
     packet_queues s' = packet_queues s \<and> next_hops s' = next_hops s"
  by (auto simp: set_default_entries_def split: sum.splits dest!: add_one_entry_Inr)

lemma static_config'_tables:
  assumes "static_config' dev s mode = Inr (rc, s')"
  shows "packet_queues s' = packet_queues s \<and> dom (next_hops s) \<subseteq> dom (next_hops s')"
proof -
  from assms obtain r1 s1 r2 s2 s3
    where 1: "add_route' dev s 0x0a00000a 32 0x0a00000a 1 mode = Inr (r1, s1)"
      and 2: "add_route' dev s1 0x0a00010a 32 0x0a00010a 2 mode = Inr (r2, s2)"
      and 3: "add_iface' dev s2 1 0x0a000001 hw1 mode = Inr s3"
      and 4: "add_iface' dev s3 2 0x0a000101 hw2 mode = Inr s'"
    by (auto simp: static_config'_def split: sum.splits)
  from add_route'_tables [OF 1] add_route'_tables [OF 2]
    add_iface'_tables [OF 3] add_iface'_tables [OF 4]
  show ?thesis by auto
qed

lemma add_route_tables:
  assumes "add_route dev s prefix pLen nhop port = Inr (rc, s')"
  shows "packet_queues s' = packet_queues s \<and> dom (next_hops s) \<subseteq> dom (next_hops s')"
proof -
  from assms obtain r1 s1 r2
    where 1: "add_route' dev s prefix pLen nhop port CONTROLLER_STATE = Inr (r1, s1)"
      and 2: "add_route' dev s1 prefix pLen nhop port DEVICE_STATE = Inr (r2, s')"
    by (auto simp: add_route_def split: sum.splits)
  from add_route'_tables [OF 1] add_route'_tables [OF 2] show ?thesis by auto
qed

lemma add_iface_tables:
  assumes "add_iface dev s port ip m = Inr s'"
  shows "packet_queues s' = packet_queues s \<and> next_hops s' = next_hops s"
proof -
  from assms obtain s1
    where 1: "add_iface' dev s port ip m CONTROLLER_STATE = Inr s1"
      and 2: "add_iface' dev s1 port ip m DEVICE_STATE = Inr s'"
    by (auto simp: add_iface_def split: sum.splits)
  from add_iface'_tables [OF 1] add_iface'_tables [OF 2] show ?thesis by auto
qed

lemma static_config_tables:
  assumes "static_config dev s = Inr (rc, s')"
  shows "packet_queues s' = packet_queues s \<and> dom (next_hops s) \<subseteq> dom (next_hops s')"
proof -
  from assms obtain r1 s1 r2
    where 1: "static_config' dev s CONTROLLER_STATE = Inr (r1, s1)"
      and 2: "static_config' dev s1 DEVICE_STATE = Inr (r2, s')"
    by (auto simp: static_config_def split: sum.splits)
  from static_config'_tables [OF 1] static_config'_tables [OF 2] show ?thesis by auto
qed

lemma update_config'_tables:
  assumes "update_config' pi_add_config dev s cfg = Inr (rc, s')"
  shows "packet_queues s' = packet_queues s \<and> dom (next_hops s) \<subseteq> dom (next_hops s')"
proof (cases "update_start dev (dev_log s) (pi_add_config cfg) cfg")
  case None
  with assms show ?thesis by (simp add: update_config'_def)
next
  case (Some code1)
  show ?thesis
  proof (cases "code1 = OK")
    case False
    with assms Some show ?thesis by (auto simp: update_config'_def Let_def)
  next
    case True
    let ?s2 = "s\<lparr>p4info := pi_add_config cfg,
                 dev_log := dev_log s @ [DeviceUpdateStart (dev_id s) (pi_add_config cfg) cfg]\<rparr>"
    from assms Some True obtain r3 s3 r4 s4
      where 3: "set_default_entries dev ?s2 = Inr (r3, s3)"
        and 4: "static_config' dev s3 DEVICE_STATE = Inr (r4, s4)"
        and 5: "s' = s4\<lparr>dev_log := dev_log s4 @ [DeviceUpdateEnd (dev_id s4)]\<rparr>"
      by (auto simp: update_config'_def Let_def split: sum.splits option.splits if_splits)
    from set_default_entries_tables [OF 3] static_config'_tables [OF 4] 5
    show ?thesis by auto
  qed
qed

lemma query_counter_tables:
  "query_counter invalid_id dev s name idx = Inr (rc, res, s') \<Longrightarrow>
     packet_queues s' = packet_queues s \<and> next_hops s' = next_hops s"
  by (auto simp: query_counter_def CounterQueryHandler_def query_counter'_def Let_def
        split: sum.splits option.splits if_splits)

lemma reinject_tables:
  "reinject m dst s q = Inr s' \<Longrightarrow>
     packet_queues s' = packet_queues s \<and> dom (next_hops s) \<subseteq> dom (next_hops s')"
proof (induction q arbitrary: s)
  case Nil
  then show ?case by simp
next
  case (Cons p ps)
  let ?port = "case next_hops s dst of None \<Rightarrow> 0 | Some pt \<Rightarrow> pt"
  let ?s1 = "s\<lparr>next_hops := (next_hops s)(dst \<mapsto> ?port)\<rparr>"
  from Cons.prems have "\<exists>p2. reinject m dst (send_packetout ?s1 p2) ps = Inr s'"
    by (simp add: Let_def split: option.splits; blast)
  then obtain p2 where r: "reinject m dst (send_packetout ?s1 p2) ps = Inr s'" ..
  have q: "packet_queues s' = packet_queues (send_packetout ?s1 p2)"
    and d: "dom (next_hops (send_packetout ?s1 p2)) \<subseteq> dom (next_hops s')"
    using Cons.IH [OF r] by simp_all
  have q1: "packet_queues (send_packetout ?s1 p2) = packet_queues s"
    by (simp add: send_packetout_def)
  have d1: "dom (next_hops s) \<subseteq> dom (next_hops (send_packetout ?s1 p2))"
    by (simp add: send_packetout_def subset_insertI)
  from q q1 order_trans [OF d1 d] show ?case by simp
qed

lemma handle_arp_reply_change:
  assumes "handle_arp_reply dev s h = Inr s'"
  shows "queue_change s s'"
proof -
  let ?dst = "proto_src_addr h"
  from assms obtain rc s1 where a: "add_arp_entry dev s ?dst (hw_src_addr h) = Inr (rc, s1)"
    by (auto simp: handle_arp_reply_def Let_def split: sum.splits)
  then have s1: "packet_queues s1 = packet_queues s" "next_hops s1 = next_hops s"
    by (auto simp: add_arp_entry_def dest!: add_one_entry_Inr)
  show ?thesis
  proof (cases "packet_queues s1 ?dst")
    case None
    with assms a have "s' = s1" by (simp add: handle_arp_reply_def)
    with s1 show ?thesis by (simp add: queue_change_same)
  next
    case (Some q)
    with assms a obtain s2 where r: "reinject (hw_src_addr h) ?dst s1 q = Inr s2"
      and e: "s' = s2\<lparr>packet_queues := (packet_queues s2)(?dst := None)\<rparr>"
      by (auto simp: handle_arp_reply_def Let_def split: sum.splits)
    from reinject_tables [OF r] e s1 show ?thesis
      by (auto simp: queue_change_def)
  qed
qed

lemma handle_ip_change:
  "18 \<le> length pkt \<Longrightarrow> queue_change s (handle_ip s pkt dst)"
  by (auto simp: queue_change_def handle_ip_def send_arp_request_def send_packetout_def Let_def
        split: option.splits)

lemma handle_arp_request_tables:
  "packet_queues (handle_arp_request s h) = packet_queues s
     \<and> next_hops (handle_arp_request s h) = next_hops s"
  by (simp add: handle_arp_request_def send_packetout_def split: option.splits)

lemma PacketHandler_cases:
  "PacketHandler doff dev s pkt =
     (if length pkt < 26 \<or> take 8 pkt \<noteq> replicate 8 0 then Inr s
      else if ntohs pkt 8 = NO_ARP_ENTRY
      then (if length pkt < 30 + doff then Inr s
            else Inr (handle_ip s pkt (ntohl pkt (26 + doff))))
      else if ntohs pkt 8 = ARP_MSG
      then (if length pkt < 54 then Inr s else handle_arp dev s (read_arp_header pkt 26))
      else Inr s)"
proof -
  have a: "(length pkt - 12 < 14) = (length pkt < 26)"
    and b: "(length pkt - 26 < doff + 4) = (length pkt < 30 + doff)"
    and c: "(length pkt - 26 < 28) = (length pkt < 54)"
    by linarith+
  show ?thesis
    unfolding PacketHandler_def Let_def sizeof_cpu_header_def sizeof_eth_header_def
      sizeof_ipv4_header_def sizeof_arp_header_def
    by (simp add: a b c)
qed

lemma PacketHandler_Inr_cases:
  assumes "PacketHandler doff dev s pkt = Inr s'"
  shows "s' = s
     \<or> (18 \<le> length pkt \<and> s' = handle_ip s pkt (ntohl pkt (26 + doff)))
     \<or> s' = handle_arp_request s (read_arp_header pkt 26)
     \<or> handle_arp_reply dev s (read_arp_header pkt 26) = Inr s'"
proof (cases "length pkt < 26 \<or> take 8 pkt \<noteq> replicate 8 0")
  case True
  with assms show ?thesis by (simp add: PacketHandler_cases)
next
  case False
  note wf = this
  show ?thesis
  proof (cases "ntohs pkt 8 = NO_ARP_ENTRY")
    case True
    with assms wf show ?thesis
      by (simp add: PacketHandler_cases split: if_splits)
  next
    case False
    note n0 = this
    show ?thesis
    proof (cases "ntohs pkt 8 = ARP_MSG")
      case True
      with assms wf n0 show ?thesis
        by (simp add: PacketHandler_cases handle_arp_def split: if_splits)
    next
      case False
      with assms wf n0 show ?thesis by (simp add: PacketHandler_cases)
    qed
  qed
qed

lemma PacketHandler_change:
  assumes "PacketHandler doff dev s pkt = Inr s'"
  shows "queue_change s s'"
  using PacketHandler_Inr_cases [OF assms]
  by (elim disjE conjE)
    (simp_all add: queue_change_same handle_ip_change handle_arp_request_tables
       handle_arp_reply_change)

lemma step_queue_change:
  assumes "step s s'"
  shows "queue_change s s'"
  using assms
proof cases
  case (packet_in doff dev pkt)
  then show ?thesis by (rule PacketHandler_change)
next
  case (route dev prefix pLen nhop port rc)
  from add_route_tables [OF this] show ?thesis by (simp add: queue_change_same)
next
  case (iface dev port ip m)
  from add_iface_tables [OF this] show ?thesis by (simp add: queue_change_same)
next
  case (defaults dev rc)
  from set_default_entries_tables [OF this] show ?thesis by (simp add: queue_change_same)
next
  case (static dev rc)
  from static_config_tables [OF this] show ?thesis by (simp add: queue_change_same)
next
  case (reload pi_add_config dev cfg rc)
  from update_config'_tables [OF this] show ?thesis by (simp add: queue_change_same)
next
  case (counter invalid_id dev name idx rc res)
  from query_counter_tables [OF this] show ?thesis by (simp add: queue_change_same)
qed

lemma queues_ok_change:
  assumes "queues_ok s" and "queue_change s s'"
  shows "queues_ok s'"
  unfolding queues_ok_def
proof (intro allI impI)
  fix dst q
  assume q: "packet_queues s' dst = Some q"
  from assms(2) have d: "dom (next_hops s) \<subseteq> dom (next_hops s')"
    and c: "packet_queues s' dst = packet_queues s dst
            \<or> packet_queues s' dst = None
            \<or> (\<exists>p. next_hops s dst \<noteq> None \<and> 18 \<le> length p
                   \<and> packet_queues s' dst =
                       Some ((case packet_queues s dst of None \<Rightarrow> [] | Some q \<Rightarrow> q) @ [p]))"
    by (simp_all add: queue_change_def)
  have nh: "next_hops s' dst \<noteq> None" if "next_hops s dst \<noteq> None"
    using that d domIff [of dst "next_hops s"] domIff [of dst "next_hops s'"] by blast
  from c q consider (same) "packet_queues s dst = Some q"
    | (app) p where "next_hops s dst \<noteq> None" "18 \<le> length p"
        "q = (case packet_queues s dst of None \<Rightarrow> [] | Some q \<Rightarrow> q) @ [p]"
    by auto
  then show "next_hops s' dst \<noteq> None \<and> q \<noteq> [] \<and> (\<forall>p \<in> set q. 18 \<le> length p)"
  proof cases
    case same
    with assms(1) have "next_hops s dst \<noteq> None" "q \<noteq> []" "\<forall>p \<in> set q. 18 \<le> length p"
      by (simp_all add: queues_ok_def)
    with nh show ?thesis by simp
  next
    case app
    have "\<forall>p \<in> set q. 18 \<le> length p"
    proof (cases "packet_queues s dst")
      case None
      with app show ?thesis by simp
    next
      case (Some q0)
      with assms(1) have "\<forall>p \<in> set q0. 18 \<le> length p"
        by (simp add: queues_ok_def)
      with app Some show ?thesis by simp
    qed
    with app nh show ?thesis by simp
  qed
qed

lemma reachable_queues_ok: "reachable s \<Longrightarrow> queues_ok s"
proof (induction rule: reachable.induct)
  case (init d info)
  show ?case by (simp add: queues_ok_def init_mgr_def)
next
  case (after s s')
  then show ?case by (blast intro: queues_ok_change step_queue_change)
qed

section \<open>Punted IP packets\<close>

lemma PacketHandler_ip:
  assumes "26 + sizeof_ipv4_header doff \<le> length pkt" and "take 8 pkt = replicate 8 0"
    and "ntohs pkt 8 = NO_ARP_ENTRY"
  shows "PacketHandler doff dev s pkt = Inr (handle_ip s pkt (ntohl pkt (26 + doff)))"
  using assms by (simp add: PacketHandler_cases sizeof_ipv4_header_def)

lemma handle_ip_Some:
  assumes "next_hops s dst = Some port"
  shows "handle_ip s pkt dst =
     s\<lparr>packet_queues :=
         (packet_queues s)(dst \<mapsto> (case packet_queues s dst of None \<Rightarrow> [] | Some q \<Rightarrow> q) @ [pkt]),
       pkt_out := pkt_out s
         @ (case find (\<lambda>iface. port_num iface = port) (ifaces s) of
              None \<Rightarrow> [] | Some iface \<Rightarrow> [arp_request_packet iface port dst])\<rparr>"
  using assms
  by (simp add: handle_ip_def send_arp_request_def send_packetout_def Let_def
        split: option.splits)

lemma pkt_ip_fields:
  "length pkt_ip = 46" "take 8 pkt_ip = replicate 8 0" "ntohs pkt_ip 8 = NO_ARP_ENTRY"
  "ntohl pkt_ip 42 = 0x0a00000a"
proof -
  let ?e = "set_eth_header hw2 (Mac 0x00 0xaa 0xbb 0x00 0x00 0x03) 0x0800"
  show "length pkt_ip = 46" "take 8 pkt_ip = replicate 8 0" "ntohs pkt_ip 8 = NO_ARP_ENTRY"
    by (simp_all add: pkt_ip_def cpu_header_fields)
  show "ntohl pkt_ip 42 = 0x0a00000a"
    using ntohl_at [of "set_cpu_header NO_ARP_ENTRY 2 @ ?e @ replicate 16 0x45" 42 "0x0a00000a" "[]"]
    by (simp add: pkt_ip_def)
qed

lemma pkt_ip2_fields:
  "length pkt_ip2 = 49" "take 8 pkt_ip2 = replicate 8 0" "ntohs pkt_ip2 8 = NO_ARP_ENTRY"
  "ntohl pkt_ip2 42 = 0x0a00000a"
proof -
  let ?e = "set_eth_header hw2 (Mac 0x00 0xaa 0xbb 0x00 0x00 0x03) 0x0800"
  show "length pkt_ip2 = 49" "take 8 pkt_ip2 = replicate 8 0" "ntohs pkt_ip2 8 = NO_ARP_ENTRY"
    by (simp_all add: pkt_ip2_def pkt_ip_def cpu_header_fields)
  show "ntohl pkt_ip2 42 = 0x0a00000a"
    using ntohl_at [of "set_cpu_header NO_ARP_ENTRY 2 @ ?e @ replicate 16 0x45" 42 "0x0a00000a"
        "[1, 2, 3]"]
    by (simp add: pkt_ip2_def pkt_ip_def)
qed

lemma mgr_cfg_fields:
  "next_hops mgr_cfg 0x0a00000a = Some 1"
  "packet_queues mgr_cfg 0x0a00000a = None"
  "find (\<lambda>iface. port_num iface = 1) (ifaces mgr_cfg) = Some if1"
  by (simp_all add: mgr_cfg_def if1_def)

lemma mgr_res_fields:
  "next_hops mgr_res 0x0a00000a = Some 1"
  "packet_queues mgr_res 0x0a00000a = Some [pkt_ip]"
  "find (\<lambda>iface. port_num iface = 1) (ifaces mgr_res) = Some if1"
  by (simp_all add: mgr_res_def mgr_cfg_def if1_def)

lemma PacketHandler_mgr_cfg: "PacketHandler 16 dev_ok mgr_cfg pkt_ip = Inr mgr_res"
proof -
  have "PacketHandler 16 dev_ok mgr_cfg pkt_ip = Inr (handle_ip mgr_cfg pkt_ip 0x0a00000a)"
    using PacketHandler_ip [of 16 pkt_ip dev_ok mgr_cfg]
    by (simp add: pkt_ip_fields sizeof_ipv4_header_def)
  also have "handle_ip mgr_cfg pkt_ip 0x0a00000a = mgr_res"
    by (simp add: handle_ip_Some [OF mgr_cfg_fields(1)] mgr_cfg_fields mgr_res_def)
      (simp add: mgr_cfg_def)
  finally show ?thesis .
qed

lemma PacketHandler_mgr_res: "PacketHandler 16 dev_ok mgr_res pkt_ip2 = Inr mgr_res2"
proof -
  have "PacketHandler 16 dev_ok mgr_res pkt_ip2 = Inr (handle_ip mgr_res pkt_ip2 0x0a00000a)"
    using PacketHandler_ip [of 16 pkt_ip2 dev_ok mgr_res]
    by (simp add: pkt_ip2_fields sizeof_ipv4_header_def)
  also have "handle_ip mgr_res pkt_ip2 0x0a00000a = mgr_res2"
    by (simp add: handle_ip_Some [OF mgr_res_fields(1)] mgr_res_fields)
      (simp add: mgr_res_def mgr_res2_def)
  finally show ?thesis .
qed

lemma reachable_mgr_res: "reachable mgr_res"
  by (rule reachable.after [OF reachable_mgr_cfg step.packet_in [OF PacketHandler_mgr_cfg]])

lemma reachable_mgr_res2: "reachable mgr_res2"
  by (rule reachable.after [OF reachable_mgr_res step.packet_in [OF PacketHandler_mgr_res]])




section \<open>ARP replies\<close>

lemma write_headers:
  assumes "18 \<le> length p"
  shows "write_at 0 (set_cpu_header DATA_PKT port) p
           = Some (set_cpu_header DATA_PKT port @ drop 12 p)"
    and "write_at sizeof_cpu_header (mac_bytes m) (set_cpu_header DATA_PKT port @ drop 12 p)
           = Some (reinjected port m p)"
  using assms by (simp_all add: write_at_def sizeof_cpu_header_def reinjected_def)

lemma reinjected_fields:
  assumes "18 \<le> length p"
  shows "length (reinjected port m p) = length p"
    and "take 8 (reinjected port m p) = replicate 8 0"
    and "ntohs (reinjected port m p) 8 = DATA_PKT"
    and "ntohs (reinjected port m p) 10 = port"
    and "mac_at (reinjected port m p) 12 = m"
    and "drop 18 (reinjected port m p) = drop 18 p"
proof -
  show "length (reinjected port m p) = length p"
    using assms by (simp add: reinjected_def)
  show "take 8 (reinjected port m p) = replicate 8 0"
    "ntohs (reinjected port m p) 8 = DATA_PKT"
    "ntohs (reinjected port m p) 10 = port"
    by (simp_all add: reinjected_def cpu_header_fields)
  show "mac_at (reinjected port m p) 12 = m"
    using mac_at_at [of "set_cpu_header DATA_PKT port" 12 m "drop 18 p"]
    by (simp add: reinjected_def)
  show "drop 18 (reinjected port m p) = drop 18 p"
    by (simp add: reinjected_def)
qed

lemma reinject_ok:
  assumes "next_hops s dst = Some port" and "\<forall>p \<in> set q. 18 \<le> length p"
  shows "reinject m dst s q = Inr (s\<lparr>pkt_out := pkt_out s @ map (reinjected port m) q\<rparr>)"
  using assms
proof (induction q arbitrary: s)
  case Nil
  then show ?case by simp
next
  case (Cons p ps)
  from Cons.prems have p: "18 \<le> length p" and ps: "\<forall>p \<in> set ps. 18 \<le> length p"
    by simp_all
  from Cons.prems(1) have same: "s\<lparr>next_hops := (next_hops s)(dst \<mapsto> port)\<rparr> = s"
    by (simp add: map_upd_triv)
  have nh: "next_hops (send_packetout s (reinjected port m p)) dst = Some port"
    using Cons.prems(1) by (simp add: send_packetout_def)
  have "reinject m dst s (p # ps) =
          reinject m dst (send_packetout s (reinjected port m p)) ps"
    using Cons.prems(1) by (simp add: write_headers [OF p] same)
  also have "\<dots> = Inr (send_packetout s (reinjected port m p)
                       \<lparr>pkt_out := pkt_out (send_packetout s (reinjected port m p))
                                    @ map (reinjected port m) ps\<rparr>)"
    by (rule Cons.IH [OF nh ps])
  finally show ?case by (simp add: send_packetout_def)
qed

lemma queues_okD:
  assumes "queues_ok s" and "packet_queues s dst = Some q"
  shows "\<exists>port. next_hops s dst = Some port" and "q \<noteq> []" and "\<forall>p \<in> set q. 18 \<le> length p"
proof -
  from assms have "next_hops s dst \<noteq> None \<and> q \<noteq> [] \<and> (\<forall>p \<in> set q. 18 \<le> length p)"
    unfolding queues_ok_def by blast
  then show "\<exists>port. next_hops s dst = Some port" and "q \<noteq> []"
    and "\<forall>p \<in> set q. 18 \<le> length p"
    by auto
qed

lemma handle_arp_reply_eq:
  assumes "queues_ok s"
    and "table_write dev (dev_log s) (arp_entry (p4info s) (proto_src_addr h) (hw_src_addr h))
           = Some n"
  shows "handle_arp_reply dev s h =
     (case packet_queues s (proto_src_addr h) of
        None \<Rightarrow>
          Inr (s\<lparr>dev_log := dev_log s
                   @ [TableWrite (dev_id s)
                        (arp_entry (p4info s) (proto_src_addr h) (hw_src_addr h))]\<rparr>)
      | Some q \<Rightarrow>
          Inr (s\<lparr>packet_queues := (packet_queues s)(proto_src_addr h := None),
                 dev_log := dev_log s
                   @ [TableWrite (dev_id s)
                        (arp_entry (p4info s) (proto_src_addr h) (hw_src_addr h))],
                 pkt_out := pkt_out s
                   @ map (reinjected (the (next_hops s (proto_src_addr h))) (hw_src_addr h)) q\<rparr>))"
proof -
  let ?dst = "proto_src_addr h"
  let ?e = "arp_entry (p4info s) ?dst (hw_src_addr h)"
  let ?s1 = "s\<lparr>dev_log := dev_log s @ [TableWrite (dev_id s) ?e]\<rparr>"
  have a: "add_arp_entry dev s ?dst (hw_src_addr h) = Inr (int n, ?s1)"
    using assms(2) by (simp add: add_arp_entry_def add_one_entry_def)
  show ?thesis
  proof (cases "packet_queues s ?dst")
    case None
    with a show ?thesis by (simp add: handle_arp_reply_def)
  next
    case (Some q)
    from queues_okD [OF assms(1) Some] obtain port where nh: "next_hops s ?dst = Some port"
      and len: "\<forall>p \<in> set q. 18 \<le> length p"
      by blast
    from nh have nh1: "next_hops ?s1 ?dst = Some port" by simp
    from reinject_ok [OF nh1 len, of "hw_src_addr h"] a Some nh show ?thesis
      by (simp add: handle_arp_reply_def Let_def)
  qed
qed

lemma handle_arp_reply_None:
  assumes "table_write dev (dev_log s) (arp_entry (p4info s) (proto_src_addr h) (hw_src_addr h))
           = None"
  shows "handle_arp_reply dev s h = Inl AssertionFailed"
  using assms by (simp add: handle_arp_reply_def add_arp_entry_def add_one_entry_def)

lemma arp_entry_explicit:
  "arp_entry info addr m =
     TableEntry (table_id_from_name info ''forward'')
       [FieldMatch (field_id_from_name info ''routing_metadata.nhop_ipv4'')
          (Exact [ucast (drop_bit 24 addr), ucast (drop_bit 16 addr),
                  ucast (drop_bit 8 addr), ucast addr])]
       (Action (action_id_from_name info ''set_dmac'')
          [(action_param_id_from_name info (action_id_from_name info ''set_dmac'') ''dmac'',
            case m of Mac a b c d e f \<Rightarrow> [a, b, c, d, e, f])])"
  by (simp add: arp_entry_def uint_to_string32_def htonl_def mac_bytes_case Let_def)

lemma info0_arp_ids:
  "table_id_from_name info0 ''forward'' = 2"
  "field_id_from_name info0 ''routing_metadata.nhop_ipv4'' = 2"
  "action_id_from_name info0 ''set_dmac'' = 2"
  "action_param_id_from_name info0 2 ''dmac'' = 1"
  by (simp_all add: info0_def)

lemma ntohl_host_ip: "ntohl [10, 0, 0, 10] 0 = 0x0a00000a"
  by (simp add: ntohl_def)

lemma mgr_res2_fields:
  "dev_id mgr_res2 = 0" "p4info mgr_res2 = info0"
  "next_hops mgr_res2 0x0a00000a = Some 1"
  "packet_queues mgr_res2 0x0a00000a = Some [pkt_ip, pkt_ip2]"
  "(packet_queues mgr_res2)(0x0a00000a := None) = Map.empty"
  by (simp_all add: mgr_res2_def mgr_cfg_def)

lemma arp_reply_result:
  assumes "reachable s" and "packet_queues s dst = Some q"
    and "opcode h = 2" and "proto_src_addr h = dst"
    and "\<forall>e. table_write dev (dev_log s) e \<noteq> None"
  shows "\<exists>port. next_hops s dst = Some port \<and> q \<noteq> []
           \<and> handle_arp dev s h =
               Inr (s\<lparr>packet_queues := (packet_queues s)(dst := None),
                      dev_log := dev_log s
                        @ [TableWrite (dev_id s)
                            (TableEntry (table_id_from_name (p4info s) ''forward'')
                               [FieldMatch
                                  (field_id_from_name (p4info s) ''routing_metadata.nhop_ipv4'')
                                  (Exact [ucast (drop_bit 24 dst), ucast (drop_bit 16 dst),
                                          ucast (drop_bit 8 dst), ucast dst])]
                               (Action (action_id_from_name (p4info s) ''set_dmac'')
                                  [(action_param_id_from_name (p4info s)
                                      (action_id_from_name (p4info s) ''set_dmac'') ''dmac'',
                                    case hw_src_addr h of
                                      Mac a b c d e f \<Rightarrow> [a, b, c, d, e, f])]))],
                      pkt_out := pkt_out s @ map (reinjected port (hw_src_addr h)) q\<rparr>)
           \<and> ntohl [ucast (drop_bit 24 dst), ucast (drop_bit 16 dst),
                     ucast (drop_bit 8 dst), ucast dst] 0 = dst
           \<and> (\<forall>p \<in> set q.
                 length (reinjected port (hw_src_addr h) p) = length p
                 \<and> ntohs (reinjected port (hw_src_addr h) p) 8 = DATA_PKT
                 \<and> ntohs (reinjected port (hw_src_addr h) p) 10 = port
                 \<and> mac_at (reinjected port (hw_src_addr h) p) 12 = hw_src_addr h
                 \<and> drop 18 (reinjected port (hw_src_addr h) p) = drop 18 p)"
proof -
  from assms(1) have ok: "queues_ok s" by (rule reachable_queues_ok)
  from queues_okD [OF ok assms(2)] obtain port where nh: "next_hops s dst = Some port"
    and ne: "q \<noteq> []" and len: "\<forall>p \<in> set q. 18 \<le> length p"
    by blast
  from assms(4,5) obtain n where tw: "table_write dev (dev_log s)
      (arp_entry (p4info s) (proto_src_addr h) (hw_src_addr h)) = Some n"
    by blast
  have "handle_arp dev s h = handle_arp_reply dev s h"
    using assms(3) by (simp add: handle_arp_def)
  with handle_arp_reply_eq [OF ok tw] assms(2,4) nh
  have "handle_arp dev s h =
               Inr (s\<lparr>packet_queues := (packet_queues s)(dst := None),
                      dev_log := dev_log s
                        @ [TableWrite (dev_id s) (arp_entry (p4info s) dst (hw_src_addr h))],
                      pkt_out := pkt_out s @ map (reinjected port (hw_src_addr h)) q\<rparr>)"
    by simp
  moreover have "ntohl [ucast (drop_bit 24 dst), ucast (drop_bit 16 dst),
                     ucast (drop_bit 8 dst), ucast dst] 0 = dst"
    using ntohl_at [of "[]" 0 dst "[]"] by (simp add: htonl_def)
  ultimately show ?thesis
    using nh ne len by (auto simp: reinjected_fields arp_entry_explicit)
qed

text \<open>
  Claim C1, amended. In a reachable state with a pending queue \<open>q\<close> for \<open>dst\<close>,
  handling an ARP reply whose sender IP is \<open>dst\<close> (the table write returning) issues
  to the device the insert of one entry of table \<^verbatim>\<open>forward\<close>: an exact match of
  \<^verbatim>\<open>routing_metadata.nhop_ipv4\<close> on the four bytes of \<open>dst\<close> in network order,
  with action \<^verbatim>\<open>set_dmac\<close> and the six bytes of the reply's sender MAC as
  \<^verbatim>\<open>dmac\<close>. It sends the queued packets once each and in queue order, each with
  the CPU header set to \<^verbatim>\<open>DATA_PKT\<close> and the next hop's port and the Ethernet
  destination set to the reply's sender MAC (length and the bytes after the Ethernet
  destination unchanged), and removes the queue of \<open>dst\<close> from the map. The number of
  errors that the device answers to the insert is not looked at.
\<close>

theorem arp_reply_drains_queue:
  assumes "reachable s" and "packet_queues s dst = Some q"
    and "opcode h = 2" and "proto_src_addr h = dst"
    and "\<forall>e. table_write dev (dev_log s) e \<noteq> None"
  shows "\<exists>port. next_hops s dst = Some port \<and> q \<noteq> []
           \<and> handle_arp dev s h =
               Inr (s\<lparr>packet_queues := (packet_queues s)(dst := None),
                      dev_log := dev_log s
                        @ [TableWrite (dev_id s)
                            (TableEntry (table_id_from_name (p4info s) ''forward'')
                               [FieldMatch
                                  (field_id_from_name (p4info s) ''routing_metadata.nhop_ipv4'')
                                  (Exact [ucast (drop_bit 24 dst), ucast (drop_bit 16 dst),
                                          ucast (drop_bit 8 dst), ucast dst])]
                               (Action (action_id_from_name (p4info s) ''set_dmac'')
                                  [(action_param_id_from_name (p4info s)
                                      (action_id_from_name (p4info s) ''set_dmac'') ''dmac'',
                                    case hw_src_addr h of
                                      Mac a b c d e f \<Rightarrow> [a, b, c, d, e, f])]))],
                      pkt_out := pkt_out s @ map (reinjected port (hw_src_addr h)) q\<rparr>)
           \<and> ntohl [ucast (drop_bit 24 dst), ucast (drop_bit 16 dst),
                     ucast (drop_bit 8 dst), ucast dst] 0 = dst
           \<and> (\<forall>p \<in> set q.
                 length (reinjected port (hw_src_addr h) p) = length p
                 \<and> ntohs (reinjected port (hw_src_addr h) p) 8 = DATA_PKT
                 \<and> ntohs (reinjected port (hw_src_addr h) p) 10 = port
                 \<and> mac_at (reinjected port (hw_src_addr h) p) 12 = hw_src_addr h
                 \<and> drop 18 (reinjected port (hw_src_addr h) p) = drop 18 p)"
  using assms by (rule arp_reply_result)

theorem arp_reply_drains_queue_witness:
  "reachable mgr_res2
   \<and> packet_queues mgr_res2 0x0a00000a = Some [pkt_ip, pkt_ip2]
   \<and> opcode arp_reply_hdr = 2
   \<and> proto_src_addr arp_reply_hdr = 0x0a00000a
   \<and> table_write dev_ok (dev_log mgr_res2) = (\<lambda>e. Some 0)
   \<and> handle_arp dev_ok mgr_res2 arp_reply_hdr =
       Inr (mgr_res2\<lparr>packet_queues := Map.empty,
                    dev_log := dev_log mgr_res2
                      @ [TableWrite 0
                          (TableEntry 2 [FieldMatch 2 (Exact [10, 0, 0, 10])]
                             (Action 2 [(1, [0x00, 0xaa, 0xbb, 0x00, 0x00, 0x02])]))],
                    pkt_out := pkt_out mgr_res2
                      @ [reinjected 1 host_mac pkt_ip, reinjected 1 host_mac pkt_ip2]\<rparr>)
   \<and> ntohl [10, 0, 0, 10] 0 = 0x0a00000a
   \<and> mac_at (reinjected 1 host_mac pkt_ip) 12 = host_mac
   \<and> mac_at (reinjected 1 host_mac pkt_ip2) 12 = host_mac"
proof -
  have q: "packet_queues mgr_res2 0x0a00000a = Some [pkt_ip, pkt_ip2]"
    by (simp add: mgr_res2_def)
  have o: "opcode arp_reply_hdr = 2" and a: "proto_src_addr arp_reply_hdr = 0x0a00000a"
    and m: "hw_src_addr arp_reply_hdr = host_mac"
    by (simp_all add: arp_reply_hdr_def)
  have t: "\<forall>e. table_write dev_ok (dev_log mgr_res2) e \<noteq> None"
    by (simp add: dev_ok_simps)
  have t0: "table_write dev_ok (dev_log mgr_res2) = (\<lambda>e. Some 0)"
    by (simp add: dev_ok_def)
  note n = mgr_res2_fields(3)
  from arp_reply_drains_queue [OF reachable_mgr_res2 q o a t] n m
  have "handle_arp dev_ok mgr_res2 arp_reply_hdr =
       Inr (mgr_res2\<lparr>packet_queues := Map.empty,
                    dev_log := dev_log mgr_res2
                      @ [TableWrite 0
                          (TableEntry 2 [FieldMatch 2 (Exact [10, 0, 0, 10])]
                             (Action 2 [(1, [0x00, 0xaa, 0xbb, 0x00, 0x00, 0x02])]))],
                    pkt_out := pkt_out mgr_res2
                      @ [reinjected 1 host_mac pkt_ip, reinjected 1 host_mac pkt_ip2]\<rparr>)
   \<and> ntohl [10, 0, 0, 10] 0 = 0x0a00000a
   \<and> mac_at (reinjected 1 host_mac pkt_ip) 12 = host_mac
   \<and> mac_at (reinjected 1 host_mac pkt_ip2) 12 = host_mac"
    by (auto simp: mgr_res2_fields info0_arp_ids host_mac_def ntohl_host_ip)
  with reachable_mgr_res2 q o a t0 show ?thesis by simp
qed

text \<open>
  Claim C1 as stated fails: the device answers one error to every table write, so the
  ARP entry for 10.0.0.10 is not programmed; the two queued packets are sent and the
  queue is removed all the same.
\<close>

theorem arp_reply_drains_queue_on_rejected_entry:
  "reachable mgr_res2
   \<and> packet_queues mgr_res2 0x0a00000a = Some [pkt_ip, pkt_ip2]
   \<and> opcode arp_reply_hdr = 2
   \<and> proto_src_addr arp_reply_hdr = 0x0a00000a
   \<and> table_write dev_err (dev_log mgr_res2) = (\<lambda>e. Some 1)
   \<and> handle_arp dev_err mgr_res2 arp_reply_hdr =
       Inr (mgr_res2\<lparr>packet_queues := Map.empty,
                    dev_log := dev_log mgr_res2
                      @ [TableWrite 0
                          (TableEntry 2 [FieldMatch 2 (Exact [10, 0, 0, 10])]
                             (Action 2 [(1, [0x00, 0xaa, 0xbb, 0x00, 0x00, 0x02])]))],
                    pkt_out := pkt_out mgr_res2
                      @ [reinjected 1 host_mac pkt_ip, reinjected 1 host_mac pkt_ip2]\<rparr>)
   \<and> ntohl [10, 0, 0, 10] 0 = 0x0a00000a
   \<and> mac_at (reinjected 1 host_mac pkt_ip) 12 = host_mac
   \<and> mac_at (reinjected 1 host_mac pkt_ip2) 12 = host_mac"
proof -
  have q: "packet_queues mgr_res2 0x0a00000a = Some [pkt_ip, pkt_ip2]"
    by (simp add: mgr_res2_def)
  have o: "opcode arp_reply_hdr = 2" and a: "proto_src_addr arp_reply_hdr = 0x0a00000a"
    and m: "hw_src_addr arp_reply_hdr = host_mac"
    by (simp_all add: arp_reply_hdr_def)
  have t: "\<forall>e. table_write dev_err (dev_log mgr_res2) e \<noteq> None"
    by (simp add: dev_err_def)
  have t1: "table_write dev_err (dev_log mgr_res2) = (\<lambda>e. Some 1)"
    by (simp add: dev_err_def)
  note n = mgr_res2_fields(3)
  from arp_reply_result [OF reachable_mgr_res2 q o a t] n m
  have "handle_arp dev_err mgr_res2 arp_reply_hdr =
       Inr (mgr_res2\<lparr>packet_queues := Map.empty,
                    dev_log := dev_log mgr_res2
                      @ [TableWrite 0
                          (TableEntry 2 [FieldMatch 2 (Exact [10, 0, 0, 10])]
                             (Action 2 [(1, [0x00, 0xaa, 0xbb, 0x00, 0x00, 0x02])]))],
                    pkt_out := pkt_out mgr_res2
                      @ [reinjected 1 host_mac pkt_ip, reinjected 1 host_mac pkt_ip2]\<rparr>)
   \<and> ntohl [10, 0, 0, 10] 0 = 0x0a00000a
   \<and> mac_at (reinjected 1 host_mac pkt_ip) 12 = host_mac
   \<and> mac_at (reinjected 1 host_mac pkt_ip2) 12 = host_mac"
    by (auto simp: mgr_res2_fields info0_arp_ids host_mac_def ntohl_host_ip)
  with reachable_mgr_res2 q o a t1 show ?thesis by simp
qed

section \<open>The queue invariant\<close>

text \<open>
  Claim C9. In every reachable state, every destination with a pending queue has a
  next-hop entry and its queue is not empty. One operation leaves a destination's
  queue as it is, removes it whole, or (only for a destination that has a next hop)
  appends one packet to it, creating it with that packet when there was none.
\<close>

theorem pending_queue_invariant:
  assumes "reachable s"
  shows "(\<forall>dst q. packet_queues s dst = Some q \<longrightarrow> next_hops s dst \<noteq> None \<and> q \<noteq> [])
     \<and> (\<forall>s' dst. step s s' \<longrightarrow>
           packet_queues s' dst = packet_queues s dst
           \<or> packet_queues s' dst = None
           \<or> (\<exists>p. next_hops s dst \<noteq> None
                  \<and> packet_queues s' dst =
                      Some ((case packet_queues s dst of None \<Rightarrow> [] | Some q \<Rightarrow> q) @ [p])))"
proof -
  from assms have ok: "queues_ok s" by (rule reachable_queues_ok)
  have inv: "next_hops s dst \<noteq> None \<and> q \<noteq> []" if "packet_queues s dst = Some q" for dst q
    using queues_okD [OF ok that] by auto
  have chg: "packet_queues s' dst = packet_queues s dst
           \<or> packet_queues s' dst = None
           \<or> (\<exists>p. next_hops s dst \<noteq> None
                  \<and> packet_queues s' dst =
                      Some ((case packet_queues s dst of None \<Rightarrow> [] | Some q \<Rightarrow> q) @ [p]))"
    if "step s s'" for s' dst
  proof -
    from that have "queue_change s s'" by (rule step_queue_change)
    then have "packet_queues s' dst = packet_queues s dst
           \<or> packet_queues s' dst = None
           \<or> (\<exists>p. next_hops s dst \<noteq> None \<and> 18 \<le> length p
                  \<and> packet_queues s' dst =
                      Some ((case packet_queues s dst of None \<Rightarrow> [] | Some q \<Rightarrow> q) @ [p]))"
      by (simp add: queue_change_def)
    then show ?thesis by blast
  qed
  from inv chg show ?thesis by blast
qed

theorem pending_queue_invariant_witness:
  "reachable mgr_res
   \<and> packet_queues mgr_res 0x0a00000a = Some [pkt_ip]
   \<and> next_hops mgr_res 0x0a00000a \<noteq> None
   \<and> step mgr_res mgr_res2
   \<and> packet_queues mgr_res2 0x0a00000a = Some ([pkt_ip] @ [pkt_ip2])"
proof -
  have st: "step mgr_res mgr_res2"
    by (rule step.packet_in [OF PacketHandler_mgr_res])
  from pending_queue_invariant [OF reachable_mgr_res] mgr_res_fields(2)
  have "next_hops mgr_res 0x0a00000a \<noteq> None" by blast
  moreover have "packet_queues mgr_res2 0x0a00000a = Some ([pkt_ip] @ [pkt_ip2])"
    by (simp add: mgr_res2_def)
  ultimately show ?thesis using reachable_mgr_res mgr_res_fields(2) st by simp
qed

section \<open>Failures of the packet path\<close>

lemma handle_arp_reply_Inr:
  assumes "queues_ok s"
    and "table_write dev (dev_log s) (arp_entry (p4info s) (proto_src_addr h) (hw_src_addr h))
           = Some n"
  shows "\<exists>s'. handle_arp_reply dev s h = Inr s'"
  using handle_arp_reply_eq [OF assms] by (cases "packet_queues s (proto_src_addr h)") simp_all

lemma handle_arp_failure:
  assumes "queues_ok s"
  shows "(\<exists>e. handle_arp dev s h = Inl e) =
           (opcode h \<noteq> 1 \<and> opcode h \<noteq> 2
            \<or> opcode h = 2
               \<and> table_write dev (dev_log s)
                   (arp_entry (p4info s) (proto_src_addr h) (hw_src_addr h)) = None)"
    and "handle_arp dev s h = Inl e \<Longrightarrow> e = AssertionFailed"
proof -
  let ?tw = "table_write dev (dev_log s)
               (arp_entry (p4info s) (proto_src_addr h) (hw_src_addr h))"
  consider (req) "opcode h = 1" | (rep_fail) "opcode h = 2" "?tw = None"
    | (rep) n where "opcode h = 2" "?tw = Some n" | (other) "opcode h \<noteq> 1" "opcode h \<noteq> 2"
    by (cases ?tw) auto
  then have "(\<exists>e. handle_arp dev s h = Inl e) =
           (opcode h \<noteq> 1 \<and> opcode h \<noteq> 2 \<or> opcode h = 2 \<and> ?tw = None)
      \<and> (handle_arp dev s h = Inl e \<longrightarrow> e = AssertionFailed)"
  proof cases
    case req
    then show ?thesis by (simp add: handle_arp_def)
  next
    case rep_fail
    then show ?thesis by (simp add: handle_arp_def handle_arp_reply_None)
  next
    case rep
    with handle_arp_reply_Inr [OF assms rep(2)] show ?thesis
      by (auto simp: handle_arp_def)
  next
    case other
    then show ?thesis by (simp add: handle_arp_def)
  qed
  then show "(\<exists>e. handle_arp dev s h = Inl e) =
           (opcode h \<noteq> 1 \<and> opcode h \<noteq> 2 \<or> opcode h = 2 \<and> ?tw = None)"
    and "handle_arp dev s h = Inl e \<Longrightarrow> e = AssertionFailed"
    by simp_all
qed

lemma pkt_arp_bad_fields:
  "length pkt_arp_bad = 54" "take 8 pkt_arp_bad = replicate 8 0"
  "ntohs pkt_arp_bad 8 = ARP_MSG" "opcode (read_arp_header pkt_arp_bad 26) = 3"
proof -
  show "length pkt_arp_bad = 54" "take 8 pkt_arp_bad = replicate 8 0"
    "ntohs pkt_arp_bad 8 = ARP_MSG"
    by (simp_all add: pkt_arp_bad_def cpu_header_fields)
  show "opcode (read_arp_header pkt_arp_bad 26) = 3"
    using read_arp_header_set [of "set_cpu_header ARP_MSG 1 @ set_eth_header hw1 host_mac 0x0806"
        26 3 host_mac "0x0a00000a" hw1 "0x0a000001" "[]"]
    by (simp add: pkt_arp_bad_def)
qed

text \<open>
  Claim C4, amended. A punted packet that is too short for the headers it needs, has a
  non-zero byte among its first eight, or carries a reason other than
  \<^verbatim>\<open>NO_ARP_ENTRY\<close> and \<^verbatim>\<open>ARP_MSG\<close> is dropped: the handler returns and the
  state is unchanged. In a reachable state the handler fails in exactly two cases, both
  on a complete ARP message and both by a failed assertion: the opcode is neither 1
  nor 2 (\<^verbatim>\<open>assert(0)\<close> in \<^verbatim>\<open>handle_arp\<close>), or the opcode is 2 and the table
  write of the ARP entry fails at the transport level.
\<close>

theorem PacketHandler_drops_and_failures:
  assumes "reachable s"
  shows "(length pkt < 26 \<or> take 8 pkt \<noteq> replicate 8 0
          \<or> (ntohs pkt 8 = NO_ARP_ENTRY \<and> length pkt < 26 + sizeof_ipv4_header doff)
          \<or> (ntohs pkt 8 = ARP_MSG \<and> length pkt < 54)
          \<or> (ntohs pkt 8 \<noteq> NO_ARP_ENTRY \<and> ntohs pkt 8 \<noteq> ARP_MSG)
          \<longrightarrow> PacketHandler doff dev s pkt = Inr s)
     \<and> ((\<exists>e. PacketHandler doff dev s pkt = Inl e) =
          (54 \<le> length pkt \<and> take 8 pkt = replicate 8 0 \<and> ntohs pkt 8 = ARP_MSG
           \<and> (opcode (read_arp_header pkt 26) \<noteq> 1 \<and> opcode (read_arp_header pkt 26) \<noteq> 2
              \<or> opcode (read_arp_header pkt 26) = 2
                 \<and> table_write dev (dev_log s)
                     (arp_entry (p4info s) (proto_src_addr (read_arp_header pkt 26))
                        (hw_src_addr (read_arp_header pkt 26))) = None)))
     \<and> (\<forall>e. PacketHandler doff dev s pkt = Inl e \<longrightarrow> e = AssertionFailed)"
proof -
  from assms have ok: "queues_ok s" by (rule reachable_queues_ok)
  let ?h = "read_arp_header pkt 26"
  let ?arp = "54 \<le> length pkt \<and> take 8 pkt = replicate 8 0 \<and> ntohs pkt 8 = ARP_MSG"
  have neq: "ARP_MSG \<noteq> NO_ARP_ENTRY"
    by (simp add: ARP_MSG_def NO_ARP_ENTRY_def)
  have drops: "PacketHandler doff dev s pkt = Inr s"
    if "length pkt < 26 \<or> take 8 pkt \<noteq> replicate 8 0
          \<or> (ntohs pkt 8 = NO_ARP_ENTRY \<and> length pkt < 26 + sizeof_ipv4_header doff)
          \<or> (ntohs pkt 8 = ARP_MSG \<and> length pkt < 54)
          \<or> (ntohs pkt 8 \<noteq> NO_ARP_ENTRY \<and> ntohs pkt 8 \<noteq> ARP_MSG)"
    using that neq by (elim disjE) (simp_all add: PacketHandler_cases sizeof_ipv4_header_def)
  have arp: "PacketHandler doff dev s pkt = handle_arp dev s ?h" if ?arp
    using that neq by (simp add: PacketHandler_cases)
  have other: "\<exists>s'. PacketHandler doff dev s pkt = Inr s'" if "\<not> ?arp"
  proof (cases "length pkt < 26 \<or> take 8 pkt \<noteq> replicate 8 0")
    case True
    then show ?thesis by (simp add: PacketHandler_cases)
  next
    case False
    note wf = this
    show ?thesis
    proof (cases "ntohs pkt 8 = NO_ARP_ENTRY")
      case True
      with wf show ?thesis by (simp add: PacketHandler_cases)
    next
      case False
      note n0 = this
      show ?thesis
      proof (cases "ntohs pkt 8 = ARP_MSG")
        case True
        with that wf have "length pkt < 54" by simp
        with True wf n0 show ?thesis by (simp add: PacketHandler_cases)
      next
        case False
        with wf n0 show ?thesis by (simp add: PacketHandler_cases)
      qed
    qed
  qed
  have fails: "(\<exists>e. PacketHandler doff dev s pkt = Inl e) =
          (?arp
           \<and> (opcode ?h \<noteq> 1 \<and> opcode ?h \<noteq> 2
              \<or> opcode ?h = 2
                 \<and> table_write dev (dev_log s)
                     (arp_entry (p4info s) (proto_src_addr ?h) (hw_src_addr ?h)) = None))"
  proof (cases ?arp)
    case True
    with arp handle_arp_failure(1) [OF ok, of dev ?h] show ?thesis by simp
  next
    case False
    with other show ?thesis by auto
  qed
  have kind: "e = AssertionFailed" if "PacketHandler doff dev s pkt = Inl e" for e
  proof (cases ?arp)
    case True
    with arp that handle_arp_failure(2) [OF ok, of dev ?h e] show ?thesis by simp
  next
    case False
    with other that show ?thesis by auto
  qed
  from drops fails kind show ?thesis by blast
qed

theorem PacketHandler_drops_and_failures_witness:
  "reachable mgr_cfg
   \<and> PacketHandler 16 dev_ok mgr_cfg [0, 0, 0] = Inr mgr_cfg
   \<and> PacketHandler 16 dev_ok mgr_cfg pkt_arp_bad = Inl AssertionFailed"
proof -
  note t = PacketHandler_drops_and_failures [OF reachable_mgr_cfg]
  from t [of "[0, 0, 0]" 16 dev_ok]
  have a: "PacketHandler 16 dev_ok mgr_cfg [0, 0, 0] = Inr mgr_cfg"
    by simp
  from t [of pkt_arp_bad 16 dev_ok]
  have "\<exists>e. PacketHandler 16 dev_ok mgr_cfg pkt_arp_bad = Inl e"
    and "\<forall>e. PacketHandler 16 dev_ok mgr_cfg pkt_arp_bad = Inl e \<longrightarrow> e = AssertionFailed"
    by (simp_all add: pkt_arp_bad_fields)
  then have "PacketHandler 16 dev_ok mgr_cfg pkt_arp_bad = Inl AssertionFailed"
    by blast
  with a reachable_mgr_cfg show ?thesis by simp
qed

text \<open>
  Claim C4 as stated fails: the freshly constructed manager receives a complete ARP
  message (54 bytes, reserved bytes zero, reason \<^verbatim>\<open>ARP_MSG\<close>) with opcode 3; the
  packet is not dropped, the assertion in \<^verbatim>\<open>handle_arp\<close> fails.
\<close>

theorem unknown_arp_opcode_aborts:
  "reachable mgr0
   \<and> length pkt_arp_bad = 54
   \<and> take 8 pkt_arp_bad = replicate 8 0
   \<and> ntohs pkt_arp_bad 8 = ARP_MSG
   \<and> opcode (read_arp_header pkt_arp_bad 26) = 3
   \<and> PacketHandler 16 dev_ok mgr0 pkt_arp_bad = Inl AssertionFailed"
proof -
  have "PacketHandler 16 dev_ok mgr0 pkt_arp_bad = Inl AssertionFailed"
    by (simp add: PacketHandler_cases pkt_arp_bad_fields handle_arp_def ARP_MSG_def
          NO_ARP_ENTRY_def)
  with reachable_mgr0 pkt_arp_bad_fields show ?thesis by simp
qed

end
